theory Spec2Isabelle
  imports Complex_Main "HOL-Library.Sublist"
begin

section \<open>Python values, exceptions and the world around the script\<close>

text \<open>
  The development embeds \<^verbatim>\<open>autogen/autogen_simple_demo.py\<close>. Python strings are
  \<^typ>\<open>string\<close>; the three non-ASCII characters the script prints are written as their
  UTF-8 bytes. The content of a chat completion is \<^verbatim>\<open>Optional[str]\<close> in the client
  library, so a stored phase output is a Python value that is a string or \<^verbatim>\<open>None\<close>.
\<close>

datatype pyval = Str string | NoneVal

text \<open>\<^verbatim>\<open>str(v)\<close>, which is what \<^verbatim>\<open>print(v)\<close> and an f-string field show.\<close>

fun py_str :: "pyval \<Rightarrow> string" where
  "py_str (Str s) = s"
| "py_str NoneVal = ''None''"

text \<open>Decimal numerals, as \<^verbatim>\<open>str\<close> and \<^verbatim>\<open>strftime\<close> write them.\<close>

definition digit_char :: "nat \<Rightarrow> char" where
  "digit_char d = ''0123456789'' ! (d mod 10)"

fun dec :: "nat \<Rightarrow> string" where
  "dec n = (if n < 10 then [digit_char n] else dec (n div 10) @ [digit_char (n mod 10)])"

declare dec.simps [simp del]

definition zpad :: "nat \<Rightarrow> string \<Rightarrow> string" where
  "zpad width s = replicate (width - length s) CHR ''0'' @ s"

text \<open>
  The exceptions the script can meet. \<open>SystemExit\<close> derives from \<^verbatim>\<open>BaseException\<close>
  only; the others derive from \<^verbatim>\<open>Exception\<close>. \<open>APIError\<close> stands for whatever the
  client library raises for a failed completion call and carries its message.
\<close>

datatype exn =
    SystemExit int
  | APIError string
  | IndexError string
  | KeyError string
  | TypeError string
  | OSError string

fun is_Exception :: "exn \<Rightarrow> bool" where
  "is_Exception (SystemExit c) = False"
| "is_Exception e = True"

text \<open>\<^verbatim>\<open>str(e)\<close>; for a \<^verbatim>\<open>KeyError\<close> it is the \<^verbatim>\<open>repr\<close> of the key.\<close>

fun exn_str :: "exn \<Rightarrow> string" where
  "exn_str (SystemExit c) = (if c < 0 then ''-'' else []) @ dec (nat \<bar>c\<bar>)"
| "exn_str (APIError m) = m"
| "exn_str (IndexError m) = m"
| "exn_str (KeyError k) = [CHR 0x27] @ k @ [CHR 0x27]"
| "exn_str (TypeError m) = m"
| "exn_str (OSError m) = m"

record chat_message =
  role :: string
  content :: string

text \<open>The keyword arguments of \<^verbatim>\<open>client.chat.completions.create\<close>.\<close>

record request =
  req_model :: string
  req_temperature :: real
  req_max_tokens :: int
  req_messages :: "chat_message list"

text \<open>
  A completion, reduced to what the script reads of it: for each element of
  \<^verbatim>\<open>response.choices\<close> its \<^verbatim>\<open>.message.content\<close>.
\<close>

record completion =
  choices :: "pyval list"

text \<open>
  \<^verbatim>\<open>autogen.config.Config\<close> is imported, not defined, by the script: the attributes the
  script reads, and the result of \<^verbatim>\<open>Config.validate_setup()\<close>, are parameters.
\<close>

record config =
  validate_setup :: bool
  API_KEY :: string
  API_BASE :: string
  VERBOSE :: bool
  USE_GROQ :: bool
  DEFAULT_MODEL :: string
  OPENAI_MODEL :: string
  AGENT_TEMPERATURE :: real
  AGENT_MAX_TOKENS :: int

record datetime =
  year :: nat
  month :: nat
  day :: nat
  hour :: nat
  minute :: nat
  second :: nat

text \<open>
  The world the process runs in: the configuration, the completion service (the answer
  to the \<open>n\<close>-th call of the run, \<open>Inl\<close> the message of the exception it raises), the
  clock (the value of the \<open>n\<close>-th \<^verbatim>\<open>datetime.now()\<close>) and the file system's answer to
  opening a file for writing (\<open>Some\<close> the message of the \<^verbatim>\<open>OSError\<close>).
\<close>

record world =
  Config :: config
  remote :: "nat \<Rightarrow> request \<Rightarrow> string + completion"
  clock :: "nat \<Rightarrow> datetime"
  open_error :: "string \<Rightarrow> string option"

text \<open>
  What the process shows: a \<^verbatim>\<open>print\<close> call with its text, or the traceback that
  \<^verbatim>\<open>traceback.print_exc()\<close> writes for the exception being handled.
\<close>

datatype out_event = Print string | Traceback exn

text \<open>
  The state of the process: the attributes of the workflow object (\<open>client\<close> with the
  key and base URL it was built from, \<open>outputs\<close>, \<open>model\<close>), the console, the requests
  sent to the completion service so far, the number of clock reads so far, and the files
  this process has opened for writing, with their contents.
\<close>

record state =
  client :: "(string \<times> string) option"
  outputs :: "string \<rightharpoonup> pyval"
  model :: string
  console :: "out_event list"
  calls :: "request list"
  ticks :: nat
  files :: "string \<rightharpoonup> string"

definition initial_state :: state where
  "initial_state =
     \<lparr>client = None, outputs = Map.empty, model = [], console = [], calls = [],
      ticks = 0, files = Map.empty\<rparr>"

section \<open>Statements as state transformers that may raise\<close>

type_synonym 'a prog = "state \<Rightarrow> (exn + 'a) \<times> state"

definition bnd :: "'a prog \<Rightarrow> ('a \<Rightarrow> 'b prog) \<Rightarrow> 'b prog" where
  "bnd m f = (\<lambda>s. case m s of (Inl e, s') \<Rightarrow> (Inl e, s') | (Inr a, s') \<Rightarrow> f a s')"

definition nxt :: "unit prog \<Rightarrow> 'b prog \<Rightarrow> 'b prog" where
  "nxt m n = bnd m (\<lambda>_. n)"

definition raise :: "exn \<Rightarrow> 'a prog" where
  "raise e = (\<lambda>s. (Inl e, s))"

definition gets :: "(state \<Rightarrow> 'a) \<Rightarrow> 'a prog" where
  "gets f = (\<lambda>s. (Inr (f s), s))"

definition print :: "string \<Rightarrow> unit prog" where
  "print txt = (\<lambda>s. (Inr (), s\<lparr>console := console s @ [Print txt]\<rparr>))"

definition now :: "world \<Rightarrow> datetime prog" where
  "now w = (\<lambda>s. (Inr (clock w (ticks s)), s\<lparr>ticks := Suc (ticks s)\<rparr>))"

text \<open>\<^verbatim>\<open>self.client.chat.completions.create(...)\<close>: the request is sent, then answered.\<close>

definition create :: "world \<Rightarrow> request \<Rightarrow> completion prog" where
  "create w req = (\<lambda>s.
     (case remote w (length (calls s)) req of
        Inl m \<Rightarrow> Inl (APIError m)
      | Inr r \<Rightarrow> Inr r,
      s\<lparr>calls := calls s @ [req]\<rparr>))"

text \<open>\<^verbatim>\<open>response.choices[0].message.content\<close>.\<close>

definition first_content :: "completion \<Rightarrow> pyval prog" where
  "first_content r =
     (case choices r of
        [] \<Rightarrow> raise (IndexError ''list index out of range'')
      | c # _ \<Rightarrow> (\<lambda>s. (Inr c, s)))"

text \<open>\<^verbatim>\<open>self.outputs[k]\<close> and \<^verbatim>\<open>self.outputs[k] = v\<close>.\<close>

definition get_output :: "string \<Rightarrow> pyval prog" where
  "get_output k = (\<lambda>s.
     case outputs s k of None \<Rightarrow> (Inl (KeyError k), s) | Some v \<Rightarrow> (Inr v, s))"

definition set_output :: "string \<Rightarrow> pyval \<Rightarrow> unit prog" where
  "set_output k v = (\<lambda>s. (Inr (), s\<lparr>outputs := (outputs s)(k \<mapsto> v)\<rparr>))"

text \<open>\<^verbatim>\<open>v + "..."\<close> for a stored output \<open>v\<close>.\<close>

definition plus_str :: "pyval \<Rightarrow> string \<Rightarrow> string prog" where
  "plus_str v t =
     (case v of
        Str a \<Rightarrow> (\<lambda>s. (Inr (a @ t), s))
      | NoneVal \<Rightarrow>
          raise (TypeError (''unsupported operand type(s) for +: '' @ [CHR 0x27] @
            ''NoneType'' @ [CHR 0x27] @ '' and '' @ [CHR 0x27] @ ''str'' @ [CHR 0x27])))"

text \<open>
  \<^verbatim>\<open>open(name, 'w')\<close> creates or truncates the file; \<^verbatim>\<open>f.write(txt)\<close> appends to it.
  A write to an open file is taken to succeed, and what was written before an exception
  left the \<^verbatim>\<open>with\<close> block stays in the file, which the block closes.
\<close>

definition open_w :: "world \<Rightarrow> string \<Rightarrow> unit prog" where
  "open_w w name = (\<lambda>s.
     case open_error w name of
       Some m \<Rightarrow> (Inl (OSError m), s)
     | None \<Rightarrow> (Inr (), s\<lparr>files := (files s)(name \<mapsto> [])\<rparr>))"

definition f_write :: "string \<Rightarrow> string \<Rightarrow> unit prog" where
  "f_write name txt = (\<lambda>s.
     (Inr (),
      s\<lparr>files := (files s)(name \<mapsto> (case files s name of None \<Rightarrow> [] | Some old \<Rightarrow> old) @ txt)\<rparr>))"

section \<open>Formatting\<close>

text \<open>
  \<^verbatim>\<open>strftime('%Y-%m-%d %H:%M:%S')\<close> and \<^verbatim>\<open>strftime('%Y%m%d_%H%M%S')\<close>: each field in
  decimal, padded with zeros to two digits, the year to four.
\<close>

definition strftime_iso :: "datetime \<Rightarrow> string" where
  "strftime_iso t =
     zpad 4 (dec (year t)) @ ''-'' @ zpad 2 (dec (month t)) @ ''-'' @ zpad 2 (dec (day t)) @
     '' '' @ zpad 2 (dec (hour t)) @ '':'' @ zpad 2 (dec (minute t)) @ '':'' @
     zpad 2 (dec (second t))"

definition strftime_compact :: "datetime \<Rightarrow> string" where
  "strftime_compact t =
     zpad 4 (dec (year t)) @ zpad 2 (dec (month t)) @ zpad 2 (dec (day t)) @
     ''_'' @ zpad 2 (dec (hour t)) @ zpad 2 (dec (minute t)) @ zpad 2 (dec (second t))"

definition equals80 :: string where
  "equals80 = replicate 80 CHR ''=''"

definition dashes80 :: string where
  "dashes80 = replicate 80 CHR ''-''"

section \<open>The workflow\<close>

text \<open>
  \<^verbatim>\<open>SimpleInterviewPlatformWorkflow.__init__\<close>. \<^verbatim>\<open>exit(1)\<close> raises \<^verbatim>\<open>SystemExit(1)\<close>.
\<close>

definition init :: "world \<Rightarrow> unit prog" where
  "init w =
     nxt (if \<not> validate_setup (Config w)
          then nxt (print ''ERROR: Configuration validation failed!'') (raise (SystemExit 1))
          else gets (\<lambda>_. ()))
    (nxt (\<lambda>s. (Inr (), s\<lparr>client := Some (API_KEY (Config w), API_BASE (Config w))\<rparr>))
    (nxt (if VERBOSE (Config w)
          then print (''Using '' @ (if USE_GROQ (Config w) then ''Groq'' else ''OpenAI'') @
                      '' API with model: '' @ DEFAULT_MODEL (Config w))
          else gets (\<lambda>_. ()))
    (nxt (\<lambda>s. (Inr (), s\<lparr>outputs := Map.empty\<rparr>))
         (\<lambda>s. (Inr (), s\<lparr>model := OPENAI_MODEL (Config w)\<rparr>)))))"

subsection \<open>Phase 1: market research\<close>

definition research_system_prompt :: string where
  "research_system_prompt =
     ''You are a market research analyst. Provide a brief analysis of\<newline>'' @
     ''3 competitors in AI interview platforms (HireVue, Pymetrics, Codility).\<newline>'' @
     ''List their key features and identify market gaps in 150 words.''"

definition research_user_message :: string where
  "research_user_message = ''Analyze the current market for AI-powered interview platforms.''"

definition phase_research :: "world \<Rightarrow> unit prog" where
  "phase_research w =
     nxt (print (''\<newline>'' @ equals80))
    (nxt (print ''PHASE 1: MARKET RESEARCH'')
    (nxt (print equals80)
    (nxt (print ''[ResearchAgent is analyzing the market...]'')
    (bnd (gets model) (\<lambda>m.
     bnd (create w
            \<lparr>req_model = m,
             req_temperature = AGENT_TEMPERATURE (Config w),
             req_max_tokens = AGENT_MAX_TOKENS (Config w),
             req_messages =
               [\<lparr>role = ''system'', content = research_system_prompt\<rparr>,
                \<lparr>role = ''user'', content = research_user_message\<rparr>]\<rparr>) (\<lambda>response.
     bnd (first_content response) (\<lambda>c.
     nxt (set_output ''research'' c)
    (nxt (print ''\<newline>[ResearchAgent Output]'')
    (bnd (get_output ''research'') (\<lambda>v.
     print (py_str v)))))))))))"

subsection \<open>Phase 2: opportunity analysis\<close>

definition analysis_system_prompt :: string where
  "analysis_system_prompt =
     ''You are a product analyst. Based on the market research provided,\<newline>'' @
     ''identify 3 key market opportunities or gaps for a new AI interview platform.\<newline>'' @
     ''Be concise in 150 words.''"

definition analysis_user_message :: "pyval \<Rightarrow> string" where
  "analysis_user_message research =
     ''Market research findings:\<newline>'' @ py_str research @
     ''\<newline>\<newline>Now identify market opportunities and gaps.''"

definition phase_analysis :: "world \<Rightarrow> unit prog" where
  "phase_analysis w =
     nxt (print (''\<newline>'' @ equals80))
    (nxt (print ''PHASE 2: OPPORTUNITY ANALYSIS'')
    (nxt (print equals80)
    (nxt (print ''[AnalysisAgent is identifying opportunities...]'')
    (bnd (get_output ''research'') (\<lambda>research.
     bnd (gets model) (\<lambda>m.
     bnd (create w
            \<lparr>req_model = m,
             req_temperature = AGENT_TEMPERATURE (Config w),
             req_max_tokens = AGENT_MAX_TOKENS (Config w),
             req_messages =
               [\<lparr>role = ''system'', content = analysis_system_prompt\<rparr>,
                \<lparr>role = ''user'', content = analysis_user_message research\<rparr>]\<rparr>) (\<lambda>response.
     bnd (first_content response) (\<lambda>c.
     nxt (set_output ''analysis'' c)
    (nxt (print ''\<newline>[AnalysisAgent Output]'')
    (bnd (get_output ''analysis'') (\<lambda>v.
     print (py_str v))))))))))))"

subsection \<open>Phase 3: product blueprint\<close>

definition blueprint_system_prompt :: string where
  "blueprint_system_prompt =
     ''You are a product designer. Based on the market analysis and opportunities,\<newline>'' @
     ''create a brief product blueprint including:\<newline>'' @
     ''- Key features (3-5)\<newline>'' @
     ''- User journey (2-3 steps)\<newline>'' @
     ''Keep it concise - 150 words.''"

definition blueprint_user_message :: "pyval \<Rightarrow> string" where
  "blueprint_user_message analysis =
     ''Market Analysis:\<newline>'' @ py_str analysis @
     ''\<newline>\<newline>Create a product blueprint for our platform.''"

definition phase_blueprint :: "world \<Rightarrow> unit prog" where
  "phase_blueprint w =
     nxt (print (''\<newline>'' @ equals80))
    (nxt (print ''PHASE 3: PRODUCT BLUEPRINT'')
    (nxt (print equals80)
    (nxt (print ''[BlueprintAgent is designing the product...]'')
    (bnd (get_output ''analysis'') (\<lambda>analysis.
     bnd (gets model) (\<lambda>m.
     bnd (create w
            \<lparr>req_model = m,
             req_temperature = AGENT_TEMPERATURE (Config w),
             req_max_tokens = AGENT_MAX_TOKENS (Config w),
             req_messages =
               [\<lparr>role = ''system'', content = blueprint_system_prompt\<rparr>,
                \<lparr>role = ''user'', content = blueprint_user_message analysis\<rparr>]\<rparr>) (\<lambda>response.
     bnd (first_content response) (\<lambda>c.
     nxt (set_output ''blueprint'' c)
    (nxt (print ''\<newline>[BlueprintAgent Output]'')
    (bnd (get_output ''blueprint'') (\<lambda>v.
     print (py_str v))))))))))))"

subsection \<open>Phase 4: go-to-market strategy\<close>

definition launch_system_prompt :: string where
  "launch_system_prompt =
     ''You are a go-to-market strategist. Using the product blueprint,\<newline>'' @
     ''outline a concise launch plan including marketing channels, launch milestones,\<newline>'' @
     ''success metrics, and partnerships in under 180 words.''"

definition launch_user_message :: "pyval \<Rightarrow> string" where
  "launch_user_message blueprint =
     ''Product Blueprint:\<newline>'' @ py_str blueprint @
     ''\<newline>\<newline>Create a go-to-market plan for launch.''"

definition phase_launch :: "world \<Rightarrow> unit prog" where
  "phase_launch w =
     nxt (print (''\<newline>'' @ equals80))
    (nxt (print ''PHASE 4: GO-TO-MARKET STRATEGY'')
    (nxt (print equals80)
    (nxt (print ''[LaunchAgent is planning the go-to-market strategy...]'')
    (bnd (get_output ''blueprint'') (\<lambda>blueprint.
     bnd (gets model) (\<lambda>m.
     bnd (create w
            \<lparr>req_model = m,
             req_temperature = AGENT_TEMPERATURE (Config w),
             req_max_tokens = AGENT_MAX_TOKENS (Config w),
             req_messages =
               [\<lparr>role = ''system'', content = launch_system_prompt\<rparr>,
                \<lparr>role = ''user'', content = launch_user_message blueprint\<rparr>]\<rparr>) (\<lambda>response.
     bnd (first_content response) (\<lambda>c.
     nxt (set_output ''launch'' c)
    (nxt (print ''\<newline>[LaunchAgent Output]'')
    (bnd (get_output ''launch'') (\<lambda>v.
     print (py_str v))))))))))))"

subsection \<open>Phase 5: strategic review\<close>

definition review_system_prompt :: string where
  "review_system_prompt =
     ''You are a product reviewer and strategist. Review the product blueprint\<newline>'' @
     ''and provide 3 strategic recommendations for success.\<newline>'' @
     ''Be concise - 150 words.''"

definition review_user_message :: "pyval \<Rightarrow> pyval \<Rightarrow> string" where
  "review_user_message blueprint launch =
     ''Product Blueprint:\<newline>'' @ py_str blueprint @
     ''\<newline>\<newline>Launch Plan:\<newline>'' @ py_str launch @
     ''\<newline>\<newline>Provide strategic review and recommendations.''"

definition phase_review :: "world \<Rightarrow> unit prog" where
  "phase_review w =
     nxt (print (''\<newline>'' @ equals80))
    (nxt (print ''PHASE 5: STRATEGIC REVIEW'')
    (nxt (print equals80)
    (nxt (print ''[ReviewerAgent is providing recommendations...]'')
    (bnd (get_output ''blueprint'') (\<lambda>blueprint.
     bnd (get_output ''launch'') (\<lambda>launch.
     bnd (gets model) (\<lambda>m.
     bnd (create w
            \<lparr>req_model = m,
             req_temperature = AGENT_TEMPERATURE (Config w),
             req_max_tokens = AGENT_MAX_TOKENS (Config w),
             req_messages =
               [\<lparr>role = ''system'', content = review_system_prompt\<rparr>,
                \<lparr>role = ''user'', content = review_user_message blueprint launch\<rparr>]\<rparr>) (\<lambda>response.
     bnd (first_content response) (\<lambda>c.
     nxt (set_output ''review'' c)
    (nxt (print ''\<newline>[ReviewerAgent Output]'')
    (bnd (get_output ''review'') (\<lambda>v.
     print (py_str v)))))))))))))"

subsection \<open>Summary and output file\<close>

definition summary_narrative :: string where
  "summary_narrative =
     ''\<newline>This workflow demonstrated a 5-agent collaboration:\<newline>'' @
     ''1. ResearchAgent - Analyzed the market\<newline>'' @
     ''2. AnalysisAgent - Identified opportunities\<newline>'' @
     ''3. BlueprintAgent - Designed the product\<newline>'' @
     ''4. LaunchAgent - Built the go-to-market strategy\<newline>'' @
     ''5. ReviewerAgent - Provided strategic recommendations\<newline>'' @
     ''\<newline>'' @
     ''Each agent received context from the previous agent'' @ [CHR 0x27] @ ''s output,\<newline>'' @
     ''demonstrating the sequential workflow pattern of AutoGen.\<newline>''"

text \<open>The console part of \<^verbatim>\<open>print_summary\<close> (lines 218 to 262 of the script).\<close>

definition print_full_results :: "unit prog" where
  "print_full_results =
     nxt (print (''\<newline>'' @ equals80))
    (nxt (print ''FINAL SUMMARY'')
    (nxt (print equals80)
    (nxt (print summary_narrative)
    (nxt (print (''\<newline>'' @ equals80))
    (nxt (print ''FULL RESULTS - ALL PHASES'')
    (nxt (print equals80)
    (nxt (print (''\<newline>'' @ dashes80))
    (nxt (print ''PHASE 1: MARKET RESEARCH (Full Output)'')
    (nxt (print dashes80)
    (bnd (get_output ''research'') (\<lambda>v1.
     nxt (print (py_str v1))
    (nxt (print (''\<newline>'' @ dashes80))
    (nxt (print ''PHASE 2: OPPORTUNITY ANALYSIS (Full Output)'')
    (nxt (print dashes80)
    (bnd (get_output ''analysis'') (\<lambda>v2.
     nxt (print (py_str v2))
    (nxt (print (''\<newline>'' @ dashes80))
    (nxt (print ''PHASE 3: PRODUCT BLUEPRINT (Full Output)'')
    (nxt (print dashes80)
    (bnd (get_output ''blueprint'') (\<lambda>v3.
     nxt (print (py_str v3))
    (nxt (print (''\<newline>'' @ dashes80))
    (nxt (print ''PHASE 4: GO-TO-MARKET STRATEGY (Full Output)'')
    (nxt (print dashes80)
    (bnd (get_output ''launch'') (\<lambda>v4.
     nxt (print (py_str v4))
    (nxt (print (''\<newline>'' @ dashes80))
    (nxt (print ''PHASE 5: STRATEGIC REVIEW (Full Output)'')
    (nxt (print dashes80)
    (bnd (get_output ''review'') (\<lambda>v5.
     print (py_str v5))))))))))))))))))))))))))))))))"

text \<open>The body of the \<^verbatim>\<open>with open(output_file, 'w') as f\<close> block (lines 268 to 297).\<close>

definition write_results :: "world \<Rightarrow> string \<Rightarrow> unit prog" where
  "write_results w f =
     nxt (f_write f (equals80 @ ''\<newline>''))
    (nxt (f_write f ''AUTOGEN INTERVIEW PLATFORM WORKFLOW - FULL RESULTS\<newline>'')
    (nxt (f_write f (equals80 @ ''\<newline>''))
    (bnd (now w) (\<lambda>t.
     nxt (f_write f (''Generated: '' @ strftime_iso t @ ''\<newline>''))
    (bnd (gets model) (\<lambda>m.
     nxt (f_write f (''Model: '' @ m @ ''\<newline>\<newline>''))
    (nxt (f_write f (''\<newline>'' @ dashes80 @ ''\<newline>''))
    (nxt (f_write f ''PHASE 1: MARKET RESEARCH\<newline>'')
    (nxt (f_write f (dashes80 @ ''\<newline>''))
    (bnd (get_output ''research'') (\<lambda>v1.
     bnd (plus_str v1 ''\<newline>'') (\<lambda>t1.
     nxt (f_write f t1)
    (nxt (f_write f (''\<newline>'' @ dashes80 @ ''\<newline>''))
    (nxt (f_write f ''PHASE 2: OPPORTUNITY ANALYSIS\<newline>'')
    (nxt (f_write f (dashes80 @ ''\<newline>''))
    (bnd (get_output ''analysis'') (\<lambda>v2.
     bnd (plus_str v2 ''\<newline>'') (\<lambda>t2.
     nxt (f_write f t2)
    (nxt (f_write f (''\<newline>'' @ dashes80 @ ''\<newline>''))
    (nxt (f_write f ''PHASE 3: PRODUCT BLUEPRINT\<newline>'')
    (nxt (f_write f (dashes80 @ ''\<newline>''))
    (bnd (get_output ''blueprint'') (\<lambda>v3.
     bnd (plus_str v3 ''\<newline>'') (\<lambda>t3.
     nxt (f_write f t3)
    (nxt (f_write f (''\<newline>'' @ dashes80 @ ''\<newline>''))
    (nxt (f_write f ''PHASE 4: GO-TO-MARKET STRATEGY\<newline>'')
    (nxt (f_write f (dashes80 @ ''\<newline>''))
    (bnd (get_output ''launch'') (\<lambda>v4.
     bnd (plus_str v4 ''\<newline>'') (\<lambda>t4.
     nxt (f_write f t4)
    (nxt (f_write f (''\<newline>'' @ dashes80 @ ''\<newline>''))
    (nxt (f_write f ''PHASE 5: STRATEGIC REVIEW\<newline>'')
    (nxt (f_write f (dashes80 @ ''\<newline>''))
    (bnd (get_output ''review'') (\<lambda>v5.
     bnd (plus_str v5 ''\<newline>'') (\<lambda>t5.
     f_write f t5))))))))))))))))))))))))))))))))))))"

definition print_summary :: "world \<Rightarrow> unit prog" where
  "print_summary w =
     nxt print_full_results
    (bnd (now w) (\<lambda>t.
     bnd (gets (\<lambda>_. ''workflow_outputs_'' @ strftime_compact t @ ''.txt'')) (\<lambda>output_file.
     nxt (open_w w output_file)
    (nxt (write_results w output_file)
    (nxt (print ([CHR 0x0A, CHR 0xF0, CHR 0x9F, CHR 0x92, CHR 0xBE] @
                 '' Full results saved to: '' @ output_file))
    (bnd (now w) (\<lambda>t_end.
     nxt (print (''\<newline>End Time: '' @ strftime_iso t_end))
         (print equals80))))))))"

definition run :: "world \<Rightarrow> unit prog" where
  "run w =
     nxt (print (''\<newline>'' @ equals80))
    (nxt (print ''AUTOGEN INTERVIEW PLATFORM WORKFLOW - SIMPLIFIED DEMO'')
    (nxt (print equals80)
    (bnd (now w) (\<lambda>t.
     nxt (print (''Start Time: '' @ strftime_iso t))
    (bnd (gets model) (\<lambda>m.
     nxt (print (''Model: '' @ m @ ''\<newline>''))
    (nxt (phase_research w)
    (nxt (phase_analysis w)
    (nxt (phase_blueprint w)
    (nxt (phase_launch w)
    (nxt (phase_review w)
         (print_summary w))))))))))))"

subsection \<open>The script's entry point\<close>

text \<open>The body of the \<^verbatim>\<open>try\<close> block and of the \<^verbatim>\<open>except Exception as e\<close> handler.\<close>

definition try_body :: "world \<Rightarrow> unit prog" where
  "try_body w =
     nxt (init w)
    (nxt (run w)
         (print ([CHR 0x0A, CHR 0xE2, CHR 0x9C, CHR 0x85] @ '' Workflow completed successfully!'')))"

definition handler :: "exn \<Rightarrow> unit prog" where
  "handler e =
     nxt (print ([CHR 0x0A, CHR 0xE2, CHR 0x9D, CHR 0x8C] @
                 '' Error during workflow execution: '' @ exn_str e))
    (nxt (print ''\<newline>Troubleshooting:'')
    (nxt (print ''1. Verify OPENAI_API_KEY is set in parent directory .env (../.env)'')
    (nxt (print ''2. Check your API key has sufficient credits'')
    (nxt (print ''3. Verify internet connection'')
    (nxt (print ''4. Ensure config.py can access shared_config from parent directory'')
    (nxt (print ''5. Check OpenAI API status at https://status.openai.com'')
         (\<lambda>s. (Inr (), s\<lparr>console := console s @ [Traceback e]\<rparr>))))))))"

text \<open>
  The process: its exit status and its final state. An exception caught by the handler
  is handled, after which the script ends; one the handler does not catch ends the
  process, a \<^verbatim>\<open>SystemExit\<close> with its code as exit status and any other with status 1.
\<close>

definition main :: "world \<Rightarrow> int \<times> state" where
  "main w =
     (case try_body w initial_state of
        (Inr u, s) \<Rightarrow> (0, s)
      | (Inl e, s) \<Rightarrow>
          if is_Exception e
          then (case handler e s of
                  (Inr u, s') \<Rightarrow> (0, s')
                | (Inl e', s') \<Rightarrow> (case e' of SystemExit c \<Rightarrow> (c, s') | _ \<Rightarrow> (1, s')))
          else (case e of SystemExit c \<Rightarrow> (c, s) | _ \<Rightarrow> (1, s)))"

section \<open>Auxiliary notions for the proofs\<close>

definition chat_request :: "config \<Rightarrow> string \<Rightarrow> string \<Rightarrow> string \<Rightarrow> request" where
  "chat_request c m sys usr =
     \<lparr>req_model = m, req_temperature = AGENT_TEMPERATURE c, req_max_tokens = AGENT_MAX_TOKENS c,
      req_messages = [\<lparr>role = ''system'', content = sys\<rparr>, \<lparr>role = ''user'', content = usr\<rparr>]\<rparr>"

definition answer :: "world \<Rightarrow> nat \<Rightarrow> request \<Rightarrow> exn + pyval" where
  "answer w n req =
     (case remote w n req of
        Inl m \<Rightarrow> Inl (APIError m)
      | Inr r \<Rightarrow> (case choices r of
                   [] \<Rightarrow> Inl (IndexError ''list index out of range'')
                 | c # cs \<Rightarrow> Inr c))"

definition banner :: "string \<Rightarrow> string \<Rightarrow> out_event list" where
  "banner title progress =
     [Print (''\<newline>'' @ equals80), Print title, Print equals80, Print progress]"

definition ask :: "world \<Rightarrow> request \<Rightarrow> string \<Rightarrow> string \<Rightarrow> unit prog" where
  "ask w req key label = (\<lambda>s.
     case answer w (length (calls s)) req of
       Inl e \<Rightarrow> (Inl e, s\<lparr>calls := calls s @ [req]\<rparr>)
     | Inr c \<Rightarrow> (Inr (), s\<lparr>calls := calls s @ [req], outputs := (outputs s)(key \<mapsto> c),
                          console := console s @ [Print label, Print (py_str c)]\<rparr>))"

definition print_section :: "string \<Rightarrow> string \<Rightarrow> unit prog" where
  "print_section title key =
     nxt (print (''\<newline>'' @ dashes80))
    (nxt (print title)
    (nxt (print dashes80)
    (bnd (get_output key) (\<lambda>v. print (py_str v)))))"

definition print_heading :: "unit prog" where
  "print_heading =
     nxt (print (''\<newline>'' @ equals80))
    (nxt (print ''FINAL SUMMARY'')
    (nxt (print equals80)
    (nxt (print summary_narrative)
    (nxt (print (''\<newline>'' @ equals80))
    (nxt (print ''FULL RESULTS - ALL PHASES'')
         (print equals80))))))"

definition write_section :: "string \<Rightarrow> string \<Rightarrow> string \<Rightarrow> unit prog" where
  "write_section f title key =
     nxt (f_write f (''\<newline>'' @ dashes80 @ ''\<newline>''))
    (nxt (f_write f title)
    (nxt (f_write f (dashes80 @ ''\<newline>''))
    (bnd (get_output key) (\<lambda>v.
     bnd (plus_str v ''\<newline>'') (\<lambda>t.
     f_write f t)))))"

definition write_header :: "world \<Rightarrow> string \<Rightarrow> unit prog" where
  "write_header w f =
     nxt (f_write f (equals80 @ ''\<newline>''))
    (nxt (f_write f ''AUTOGEN INTERVIEW PLATFORM WORKFLOW - FULL RESULTS\<newline>'')
    (nxt (f_write f (equals80 @ ''\<newline>''))
    (bnd (now w) (\<lambda>t.
     nxt (f_write f (''Generated: '' @ strftime_iso t @ ''\<newline>''))
    (bnd (gets model) (\<lambda>m.
     f_write f (''Model: '' @ m @ ''\<newline>\<newline>'')))))))"

definition phases :: "world \<Rightarrow> unit prog" where
  "phases w =
     nxt (phase_research w)
    (nxt (phase_analysis w)
    (nxt (phase_blueprint w)
    (nxt (phase_launch w)
         (phase_review w))))"

definition run_heading :: "world \<Rightarrow> unit prog" where
  "run_heading w =
     nxt (print (''\<newline>'' @ equals80))
    (nxt (print ''AUTOGEN INTERVIEW PLATFORM WORKFLOW - SIMPLIFIED DEMO'')
    (nxt (print equals80)
    (bnd (now w) (\<lambda>t.
     nxt (print (''Start Time: '' @ strftime_iso t))
    (bnd (gets model) (\<lambda>m.
     print (''Model: '' @ m @ ''\<newline>'')))))))"

definition file_header :: "string \<Rightarrow> string \<Rightarrow> string" where
  "file_header generated m =
     equals80 @ ''\<newline>'' @
     ''AUTOGEN INTERVIEW PLATFORM WORKFLOW - FULL RESULTS\<newline>'' @
     equals80 @ ''\<newline>'' @
     ''Generated: '' @ generated @ ''\<newline>'' @
     ''Model: '' @ m @ ''\<newline>\<newline>''"

definition file_section :: "string \<Rightarrow> string \<Rightarrow> string" where
  "file_section title body =
     ''\<newline>'' @ dashes80 @ ''\<newline>'' @ title @ ''\<newline>'' @ dashes80 @ ''\<newline>'' @
     body @ ''\<newline>''"

definition output_file_name :: "datetime \<Rightarrow> string" where
  "output_file_name t = ''workflow_outputs_'' @ strftime_compact t @ ''.txt''"

definition quiet :: "'a prog \<Rightarrow> bool" where
  "quiet m \<longleftrightarrow> (\<forall>s. case m s of (r, s') \<Rightarrow>
      calls s' = calls s \<and> outputs s' = outputs s \<and> model s' = model s \<and> client s' = client s \<and>
      (\<forall>e. r = Inl e \<longrightarrow> is_Exception e))"

definition console_section :: "string \<Rightarrow> pyval \<Rightarrow> out_event list" where
  "console_section title v =
     [Print (''\<newline>'' @ dashes80), Print (title @ '' (Full Output)''), Print dashes80,
      Print (py_str v)]"

definition summary_console :: "pyval \<Rightarrow> pyval \<Rightarrow> pyval \<Rightarrow> pyval \<Rightarrow> pyval \<Rightarrow> out_event list" where
  "summary_console v1 v2 v3 v4 v5 =
     [Print (''\<newline>'' @ equals80), Print ''FINAL SUMMARY'', Print equals80,
      Print summary_narrative,
      Print (''\<newline>'' @ equals80), Print ''FULL RESULTS - ALL PHASES'', Print equals80] @
     console_section ''PHASE 1: MARKET RESEARCH'' v1 @
     console_section ''PHASE 2: OPPORTUNITY ANALYSIS'' v2 @
     console_section ''PHASE 3: PRODUCT BLUEPRINT'' v3 @
     console_section ''PHASE 4: GO-TO-MARKET STRATEGY'' v4 @
     console_section ''PHASE 5: STRATEGIC REVIEW'' v5"

definition results_text :: "string \<Rightarrow> string \<Rightarrow> string \<Rightarrow> string \<Rightarrow> string \<Rightarrow> string \<Rightarrow> string \<Rightarrow> string" where
  "results_text generated m t1 t2 t3 t4 t5 =
     file_header generated m @
     file_section ''PHASE 1: MARKET RESEARCH'' t1 @
     file_section ''PHASE 2: OPPORTUNITY ANALYSIS'' t2 @
     file_section ''PHASE 3: PRODUCT BLUEPRINT'' t3 @
     file_section ''PHASE 4: GO-TO-MARKET STRATEGY'' t4 @
     file_section ''PHASE 5: STRATEGIC REVIEW'' t5"

definition all_present :: "state \<Rightarrow> pyval \<Rightarrow> pyval \<Rightarrow> pyval \<Rightarrow> pyval \<Rightarrow> pyval \<Rightarrow> bool" where
  "all_present s v1 v2 v3 v4 v5 \<longleftrightarrow>
     outputs s ''research'' = Some v1 \<and> outputs s ''analysis'' = Some v2 \<and>
     outputs s ''blueprint'' = Some v3 \<and> outputs s ''launch'' = Some v4 \<and>
     outputs s ''review'' = Some v5"

definition type_error_text :: string where
  "type_error_text = ''unsupported operand type(s) for +: '' @ [CHR 0x27] @
            ''NoneType'' @ [CHR 0x27] @ '' and '' @ [CHR 0x27] @ ''str'' @ [CHR 0x27]"

definition summary_tail :: "world \<Rightarrow> nat \<Rightarrow> out_event list" where
  "summary_tail w n =
     [Print ([CHR 0x0A, CHR 0xF0, CHR 0x9F, CHR 0x92, CHR 0xBE] @
             '' Full results saved to: '' @ output_file_name (clock w n)),
      Print (''\<newline>End Time: '' @ strftime_iso (clock w (Suc (Suc n)))),
      Print equals80]"

definition research_request :: "world \<Rightarrow> request" where
  "research_request w =
     chat_request (Config w) (OPENAI_MODEL (Config w)) research_system_prompt research_user_message"

definition analysis_request :: "world \<Rightarrow> pyval \<Rightarrow> request" where
  "analysis_request w research =
     chat_request (Config w) (OPENAI_MODEL (Config w)) analysis_system_prompt
       (analysis_user_message research)"

definition blueprint_request :: "world \<Rightarrow> pyval \<Rightarrow> request" where
  "blueprint_request w analysis =
     chat_request (Config w) (OPENAI_MODEL (Config w)) blueprint_system_prompt
       (blueprint_user_message analysis)"

definition launch_request :: "world \<Rightarrow> pyval \<Rightarrow> request" where
  "launch_request w blueprint =
     chat_request (Config w) (OPENAI_MODEL (Config w)) launch_system_prompt
       (launch_user_message blueprint)"

definition review_request :: "world \<Rightarrow> pyval \<Rightarrow> pyval \<Rightarrow> request" where
  "review_request w blueprint launch =
     chat_request (Config w) (OPENAI_MODEL (Config w)) review_system_prompt
       (review_user_message blueprint launch)"

definition final ::
  "world \<Rightarrow> out_event list \<Rightarrow> request list \<Rightarrow> (string \<rightharpoonup> pyval) \<Rightarrow> nat \<Rightarrow>
   (string \<rightharpoonup> string) \<Rightarrow> state" where
  "final w c q out n fs =
     \<lparr>client = Some (API_KEY (Config w), API_BASE (Config w)), outputs = out,
      model = OPENAI_MODEL (Config w), console = c, calls = q, ticks = n, files = fs\<rparr>"

definition init_console :: "world \<Rightarrow> out_event list" where
  "init_console w =
     (if VERBOSE (Config w)
      then [Print (''Using '' @ (if USE_GROQ (Config w) then ''Groq'' else ''OpenAI'') @
                   '' API with model: '' @ DEFAULT_MODEL (Config w))]
      else [])"

definition heading_console :: "world \<Rightarrow> nat \<Rightarrow> out_event list" where
  "heading_console w n =
     [Print (''\<newline>'' @ equals80),
      Print ''AUTOGEN INTERVIEW PLATFORM WORKFLOW - SIMPLIFIED DEMO'',
      Print equals80,
      Print (''Start Time: '' @ strftime_iso (clock w n)),
      Print (''Model: '' @ OPENAI_MODEL (Config w) @ ''\<newline>'')]"

definition all_requests :: "world \<Rightarrow> pyval \<Rightarrow> pyval \<Rightarrow> pyval \<Rightarrow> pyval \<Rightarrow> request list" where
  "all_requests w v1 v2 v3 v4 =
     [research_request w, analysis_request w v1, blueprint_request w v2, launch_request w v3,
      review_request w v3 v4]"

definition all_outputs :: "pyval \<Rightarrow> pyval \<Rightarrow> pyval \<Rightarrow> pyval \<Rightarrow> pyval \<Rightarrow> (string \<rightharpoonup> pyval)" where
  "all_outputs v1 v2 v3 v4 v5 =
     [''research'' \<mapsto> v1, ''analysis'' \<mapsto> v2, ''blueprint'' \<mapsto> v3, ''launch'' \<mapsto> v4,
      ''review'' \<mapsto> v5]"

definition five_answers :: "world \<Rightarrow> pyval \<Rightarrow> pyval \<Rightarrow> pyval \<Rightarrow> pyval \<Rightarrow> pyval \<Rightarrow> bool" where
  "five_answers w v1 v2 v3 v4 v5 \<longleftrightarrow>
     answer w 0 (research_request w) = Inr v1 \<and>
     answer w 1 (analysis_request w v1) = Inr v2 \<and>
     answer w 2 (blueprint_request w v2) = Inr v3 \<and>
     answer w 3 (launch_request w v3) = Inr v4 \<and>
     answer w 4 (review_request w v3 v4) = Inr v5"

definition front :: "world \<Rightarrow> unit prog" where
  "front w = nxt (init w) (nxt (run_heading w) (phases w))"

definition success_text :: string where
  "success_text = [CHR 0x0A, CHR 0xE2, CHR 0x9C, CHR 0x85] @ '' Workflow completed successfully!''"

definition handler_console :: "exn \<Rightarrow> out_event list" where
  "handler_console e =
     [Print ([CHR 0x0A, CHR 0xE2, CHR 0x9D, CHR 0x8C] @
             '' Error during workflow execution: '' @ exn_str e),
      Print ''\<newline>Troubleshooting:'',
      Print ''1. Verify OPENAI_API_KEY is set in parent directory .env (../.env)'',
      Print ''2. Check your API key has sufficient credits'',
      Print ''3. Verify internet connection'',
      Print ''4. Ensure config.py can access shared_config from parent directory'',
      Print ''5. Check OpenAI API status at https://status.openai.com'',
      Traceback e]"

definition succeeded :: "world \<Rightarrow> bool" where
  "succeeded w \<longleftrightarrow> fst (try_body w initial_state) = Inr ()"

section \<open>Sample worlds\<close>

text \<open>
  A valid configuration, and worlds built on it: one whose completion service answers the
  five calls with \<open>R\<close>, \<open>A\<close>, \<open>B\<close>, \<open>L\<close>, \<open>V\<close>, one whose service is unreachable, one
  whose second answer has no choice, one whose third answer has no text, and one where
  the output file cannot be opened. The last world fails the configuration check.
\<close>

definition sample_config :: config where
  "sample_config =
     \<lparr>validate_setup = True, API_KEY = ''sk-test'', API_BASE = ''https://api.openai.com/v1'',
      VERBOSE = True, USE_GROQ = False, DEFAULT_MODEL = ''gpt-4o-mini'',
      OPENAI_MODEL = ''gpt-4o-mini'', AGENT_TEMPERATURE = 7 / 10, AGENT_MAX_TOKENS = 500\<rparr>"

definition sample_time :: datetime where
  "sample_time = \<lparr>year = 2025, month = 1, day = 2, hour = 3, minute = 4, second = 5\<rparr>"

definition stub_reply :: "nat \<Rightarrow> string" where
  "stub_reply n =
     (if n = 0 then ''R'' else if n = 1 then ''A'' else if n = 2 then ''B''
      else if n = 3 then ''L'' else ''V'')"

definition stub_world :: world where
  "stub_world =
     \<lparr>Config = sample_config,
      remote = (\<lambda>n req. Inr \<lparr>choices = [Str (stub_reply n)]\<rparr>),
      clock = (\<lambda>n. sample_time),
      open_error = (\<lambda>name. None)\<rparr>"

definition offline_world :: world where
  "offline_world = stub_world\<lparr>remote := (\<lambda>n req. Inl ''Connection error.'')\<rparr>"

definition third_call_fails_world :: world where
  "third_call_fails_world =
     stub_world\<lparr>remote := (\<lambda>n req.
        if n = 2 then Inl ''Rate limit reached'' else Inr \<lparr>choices = [Str (stub_reply n)]\<rparr>)\<rparr>"

definition read_only_world :: world where
  "read_only_world = stub_world\<lparr>open_error := (\<lambda>name. Some ''Permission denied'')\<rparr>"

definition unconfigured_world :: world where
  "unconfigured_world = stub_world\<lparr>Config := sample_config\<lparr>validate_setup := False\<rparr>\<rparr>"

definition phase_names :: "string list" where
  "phase_names = [''research'', ''analysis'', ''blueprint'', ''launch'', ''review'']"

definition system_prompts :: "string list" where
  "system_prompts =
     [research_system_prompt, analysis_system_prompt, blueprint_system_prompt,
      launch_system_prompt, review_system_prompt]"

definition answered :: "world \<Rightarrow> nat \<Rightarrow> request \<Rightarrow> bool" where
  "answered w n req \<longleftrightarrow> (case remote w n req of Inl m \<Rightarrow> False | Inr r \<Rightarrow> choices r \<noteq> [])"

definition writes_only :: "string \<Rightarrow> unit prog \<Rightarrow> bool" where
  "writes_only key p \<longleftrightarrow>
     (\<forall>s. (\<forall>k. k \<noteq> key \<longrightarrow> outputs (snd (p s)) k = outputs s k) \<and>
          (fst (p s) = Inr () \<longrightarrow> key \<in> dom (outputs (snd (p s)))) \<and>
          (fst (p s) \<noteq> Inr () \<longrightarrow> outputs (snd (p s)) = outputs s))"

definition touches :: "string set \<Rightarrow> unit prog \<Rightarrow> bool" where
  "touches K p \<longleftrightarrow> (\<forall>s. dom (outputs (snd (p s))) \<subseteq> dom (outputs s) \<union> K)"







section \<open>Executing the statements\<close>

lemmas prog_defs = bnd_def nxt_def raise_def gets_def print_def now_def create_def
  first_content_def get_output_def set_output_def plus_str_def open_w_def f_write_def

lemma phase_research_eq:
  "phase_research w s =
     ask w (chat_request (Config w) (model s) research_system_prompt research_user_message)
       ''research'' ''\<newline>[ResearchAgent Output]''
       (s\<lparr>console := console s @
            banner ''PHASE 1: MARKET RESEARCH'' ''[ResearchAgent is analyzing the market...]''\<rparr>)"
  by (simp add: phase_research_def prog_defs ask_def answer_def chat_request_def banner_def
      split: sum.splits list.splits)

lemma phase_analysis_eq:
  "phase_analysis w s =
     (let s0 = s\<lparr>console := console s @
            banner ''PHASE 2: OPPORTUNITY ANALYSIS'' ''[AnalysisAgent is identifying opportunities...]''\<rparr>
      in case outputs s ''research'' of
           None \<Rightarrow> (Inl (KeyError ''research''), s0)
         | Some v \<Rightarrow>
             ask w (chat_request (Config w) (model s) analysis_system_prompt (analysis_user_message v))
               ''analysis'' ''\<newline>[AnalysisAgent Output]'' s0)"
  by (simp add: phase_analysis_def prog_defs ask_def answer_def chat_request_def banner_def
      split: sum.splits list.splits option.splits)

lemma phase_blueprint_eq:
  "phase_blueprint w s =
     (let s0 = s\<lparr>console := console s @
            banner ''PHASE 3: PRODUCT BLUEPRINT'' ''[BlueprintAgent is designing the product...]''\<rparr>
      in case outputs s ''analysis'' of
           None \<Rightarrow> (Inl (KeyError ''analysis''), s0)
         | Some v \<Rightarrow>
             ask w (chat_request (Config w) (model s) blueprint_system_prompt (blueprint_user_message v))
               ''blueprint'' ''\<newline>[BlueprintAgent Output]'' s0)"
  by (simp add: phase_blueprint_def prog_defs ask_def answer_def chat_request_def banner_def
      split: sum.splits list.splits option.splits)

lemma phase_launch_eq:
  "phase_launch w s =
     (let s0 = s\<lparr>console := console s @
            banner ''PHASE 4: GO-TO-MARKET STRATEGY'' ''[LaunchAgent is planning the go-to-market strategy...]''\<rparr>
      in case outputs s ''blueprint'' of
           None \<Rightarrow> (Inl (KeyError ''blueprint''), s0)
         | Some v \<Rightarrow>
             ask w (chat_request (Config w) (model s) launch_system_prompt (launch_user_message v))
               ''launch'' ''\<newline>[LaunchAgent Output]'' s0)"
  by (simp add: phase_launch_def prog_defs ask_def answer_def chat_request_def banner_def
      split: sum.splits list.splits option.splits)

lemma phase_review_eq:
  "phase_review w s =
     (let s0 = s\<lparr>console := console s @
            banner ''PHASE 5: STRATEGIC REVIEW'' ''[ReviewerAgent is providing recommendations...]''\<rparr>
      in case outputs s ''blueprint'' of
           None \<Rightarrow> (Inl (KeyError ''blueprint''), s0)
         | Some b \<Rightarrow>
            (case outputs s ''launch'' of
               None \<Rightarrow> (Inl (KeyError ''launch''), s0)
             | Some l \<Rightarrow>
                 ask w (chat_request (Config w) (model s) review_system_prompt (review_user_message b l))
                   ''review'' ''\<newline>[ReviewerAgent Output]'' s0))"
  by (simp add: phase_review_def prog_defs ask_def answer_def chat_request_def banner_def
      split: sum.splits list.splits option.splits)

lemma bnd_assoc: "bnd (bnd m f) g = bnd m (\<lambda>x. bnd (f x) g)"
  by (auto simp add: bnd_def fun_eq_iff split: prod.splits sum.splits)

lemma print_full_results_sections:
  "print_full_results =
     nxt print_heading
    (nxt (print_section ''PHASE 1: MARKET RESEARCH (Full Output)'' ''research'')
    (nxt (print_section ''PHASE 2: OPPORTUNITY ANALYSIS (Full Output)'' ''analysis'')
    (nxt (print_section ''PHASE 3: PRODUCT BLUEPRINT (Full Output)'' ''blueprint'')
    (nxt (print_section ''PHASE 4: GO-TO-MARKET STRATEGY (Full Output)'' ''launch'')
         (print_section ''PHASE 5: STRATEGIC REVIEW (Full Output)'' ''review'')))))"
  by (simp only: print_full_results_def print_heading_def print_section_def nxt_def bnd_assoc)

lemma write_results_sections:
  "write_results w f =
     nxt (write_header w f)
    (nxt (write_section f ''PHASE 1: MARKET RESEARCH\<newline>'' ''research'')
    (nxt (write_section f ''PHASE 2: OPPORTUNITY ANALYSIS\<newline>'' ''analysis'')
    (nxt (write_section f ''PHASE 3: PRODUCT BLUEPRINT\<newline>'' ''blueprint'')
    (nxt (write_section f ''PHASE 4: GO-TO-MARKET STRATEGY\<newline>'' ''launch'')
         (write_section f ''PHASE 5: STRATEGIC REVIEW\<newline>'' ''review'')))))"
  by (simp only: write_results_def write_header_def write_section_def nxt_def bnd_assoc)

lemma run_parts: "run w = nxt (run_heading w) (nxt (phases w) (print_summary w))"
  by (simp only: run_def run_heading_def phases_def nxt_def bnd_assoc)

lemma bnd_apply: "bnd m f s = (case m s of (Inl e, s') \<Rightarrow> (Inl e, s') | (Inr a, s') \<Rightarrow> f a s')"
  by (simp add: bnd_def)

lemma nxt_apply: "nxt m n s = (case m s of (Inl e, s') \<Rightarrow> (Inl e, s') | (Inr a, s') \<Rightarrow> n s')"
  by (simp add: nxt_def bnd_def)

lemma raise_apply: "raise e s = (Inl e, s)" by (simp add: raise_def)

lemma gets_apply: "gets f s = (Inr (f s), s)" by (simp add: gets_def)

lemma print_apply: "print txt s = (Inr (), s\<lparr>console := console s @ [Print txt]\<rparr>)" by (simp add: print_def)

lemma now_apply: "now w s = (Inr (clock w (ticks s)), s\<lparr>ticks := Suc (ticks s)\<rparr>)" by (simp add: now_def)

lemma get_output_apply: "get_output k s = (case outputs s k of None \<Rightarrow> (Inl (KeyError k), s) | Some v \<Rightarrow> (Inr v, s))"
  by (simp add: get_output_def)

lemma set_output_apply: "set_output k v s = (Inr (), s\<lparr>outputs := (outputs s)(k \<mapsto> v)\<rparr>)" by (simp add: set_output_def)

lemma plus_str_apply: "plus_str v t s = (case v of Str a \<Rightarrow> (Inr (a @ t), s) | NoneVal \<Rightarrow> (Inl (TypeError (''unsupported operand type(s) for +: '' @ [CHR 0x27] @
            ''NoneType'' @ [CHR 0x27] @ '' and '' @ [CHR 0x27] @ ''str'' @ [CHR 0x27])), s))"
  by (simp add: plus_str_def raise_def split: pyval.splits)

lemma open_w_apply: "open_w w name s = (case open_error w name of
       Some m \<Rightarrow> (Inl (OSError m), s)
     | None \<Rightarrow> (Inr (), s\<lparr>files := (files s)(name \<mapsto> [])\<rparr>))" by (simp add: open_w_def)

lemma f_write_apply: "f_write name txt s = (Inr (),
      s\<lparr>files := (files s)(name \<mapsto> (case files s name of None \<Rightarrow> [] | Some old \<Rightarrow> old) @ txt)\<rparr>)"
  by (simp add: f_write_def)

lemmas exec = bnd_apply nxt_apply raise_apply gets_apply print_apply now_apply get_output_apply
  set_output_apply plus_str_apply open_w_apply f_write_apply

lemma write_header_apply:
  "files s f = Some old \<Longrightarrow> write_header w f s =
     (Inr (), s\<lparr>ticks := Suc (ticks s),
                files := (files s)(f \<mapsto> old @ file_header (strftime_iso (clock w (ticks s))) (model s))\<rparr>)"
  by (simp add: write_header_def exec file_header_def)

lemma write_section_Str:
  "files s f = Some old \<Longrightarrow> outputs s key = Some (Str t) \<Longrightarrow>
   write_section f (title @ ''\<newline>'') key s =
     (Inr (), s\<lparr>files := (files s)(f \<mapsto> old @ file_section title t)\<rparr>)"
  by (simp add: write_section_def exec file_section_def)

lemma write_section_not_Str:
  "\<forall>t. outputs s key \<noteq> Some (Str t) \<Longrightarrow> \<exists>e. fst (write_section f title key s) = Inl e"
  by (simp add: write_section_def exec split: option.splits pyval.splits)

lemma print_section_Some:
  "outputs s key = Some v \<Longrightarrow>
   print_section title key s =
     (Inr (), s\<lparr>console := console s @
         [Print (''\<newline>'' @ dashes80), Print title, Print dashes80, Print (py_str v)]\<rparr>)"
  by (simp add: print_section_def exec)

lemma print_section_None:
  "outputs s key = None \<Longrightarrow> \<exists>e. fst (print_section title key s) = Inl e"
  by (simp add: print_section_def exec)

lemma print_heading_apply:
  "print_heading s = (Inr (), s\<lparr>console := console s @
      [Print (''\<newline>'' @ equals80), Print ''FINAL SUMMARY'', Print equals80, Print summary_narrative,
       Print (''\<newline>'' @ equals80), Print ''FULL RESULTS - ALL PHASES'', Print equals80]\<rparr>)"
  by (simp add: print_heading_def exec)

lemma quiet_bnd: "quiet m \<Longrightarrow> (\<And>a. quiet (f a)) \<Longrightarrow> quiet (bnd m f)"
  unfolding quiet_def bnd_def
  by (fastforce split: prod.splits sum.splits)

lemma quiet_nxt: "quiet m \<Longrightarrow> quiet n \<Longrightarrow> quiet (nxt m n)"
  by (simp add: nxt_def quiet_bnd)

lemma quiet_prims:
  "quiet (print t)" "quiet (now w)" "quiet (gets g)" "quiet (get_output k)"
  "quiet (plus_str v t)" "quiet (open_w w f)" "quiet (f_write f t)"
  by (simp_all add: quiet_def exec split: option.splits pyval.splits)

lemma quiet_print_summary: "quiet (print_summary w)"
  unfolding print_summary_def print_full_results_def write_results_def
  by (intro quiet_bnd quiet_nxt quiet_prims)

lemma print_summary_frame:
  "print_summary w s = (r, s') \<Longrightarrow>
   calls s' = calls s \<and> outputs s' = outputs s \<and> model s' = model s \<and> client s' = client s"
  using quiet_print_summary [of w] unfolding quiet_def by (auto split: prod.splits)

lemma print_full_results_ok:
  assumes "all_present s v1 v2 v3 v4 v5"
  shows "print_full_results s = (Inr (), s\<lparr>console := console s @ summary_console v1 v2 v3 v4 v5\<rparr>)"
  using assms
  by (simp add: all_present_def print_full_results_sections nxt_apply print_heading_apply
      print_section_Some summary_console_def console_section_def)

lemma write_results_ok:
  assumes "all_present s (Str t1) (Str t2) (Str t3) (Str t4) (Str t5)" "files s f = Some []"
  shows "write_results w f s =
     (Inr (), s\<lparr>ticks := Suc (ticks s),
        files := (files s)(f \<mapsto> results_text (strftime_iso (clock w (ticks s))) (model s) t1 t2 t3 t4 t5)\<rparr>)"
  using assms write_section_Str [where title = "''PHASE 1: MARKET RESEARCH''"]
    write_section_Str [where title = "''PHASE 2: OPPORTUNITY ANALYSIS''"]
    write_section_Str [where title = "''PHASE 3: PRODUCT BLUEPRINT''"]
    write_section_Str [where title = "''PHASE 4: GO-TO-MARKET STRATEGY''"]
    write_section_Str [where title = "''PHASE 5: STRATEGIC REVIEW''"]
  by (simp add: all_present_def write_results_sections nxt_apply write_header_apply results_text_def)

lemma write_section_None:
  "files s f = Some old \<Longrightarrow> outputs s key = Some NoneVal \<Longrightarrow>
   write_section f title key s =
     (Inl (TypeError type_error_text),
      s\<lparr>files := (files s)(f \<mapsto> old @ ''\<newline>'' @ dashes80 @ ''\<newline>'' @ title @ dashes80 @ ''\<newline>'')\<rparr>)"
  by (simp add: write_section_def exec type_error_text_def)

lemma first_None_cases:
  assumes "v1 = NoneVal \<or> v2 = NoneVal \<or> v3 = NoneVal \<or> v4 = NoneVal \<or> v5 = NoneVal"
  obtains (1) "v1 = NoneVal"
    | (2) t1 where "v1 = Str t1" "v2 = NoneVal"
    | (3) t1 t2 where "v1 = Str t1" "v2 = Str t2" "v3 = NoneVal"
    | (4) t1 t2 t3 where "v1 = Str t1" "v2 = Str t2" "v3 = Str t3" "v4 = NoneVal"
    | (5) t1 t2 t3 t4 where "v1 = Str t1" "v2 = Str t2" "v3 = Str t3" "v4 = Str t4" "v5 = NoneVal"
  using assms by (cases v1; cases v2; cases v3; cases v4; cases v5) auto

lemma write_results_fails:
  assumes "all_present s v1 v2 v3 v4 v5" "files s f = Some []"
    "v1 = NoneVal \<or> v2 = NoneVal \<or> v3 = NoneVal \<or> v4 = NoneVal \<or> v5 = NoneVal"
  shows "fst (write_results w f s) = Inl (TypeError type_error_text)"
  using assms(3)
proof (cases rule: first_None_cases)
  case 1
  with assms(1,2) show ?thesis
    by (simp add: all_present_def write_results_sections nxt_apply write_header_apply
        write_section_None)
next
  case 2
  with assms(1,2) write_section_Str [where title = "''PHASE 1: MARKET RESEARCH''"] show ?thesis
    by (simp add: all_present_def write_results_sections nxt_apply write_header_apply
        write_section_None)
next
  case 3
  with assms(1,2) write_section_Str [where title = "''PHASE 1: MARKET RESEARCH''"]
    write_section_Str [where title = "''PHASE 2: OPPORTUNITY ANALYSIS''"] show ?thesis
    by (simp add: all_present_def write_results_sections nxt_apply write_header_apply
        write_section_None)
next
  case 4
  with assms(1,2) write_section_Str [where title = "''PHASE 1: MARKET RESEARCH''"]
    write_section_Str [where title = "''PHASE 2: OPPORTUNITY ANALYSIS''"]
    write_section_Str [where title = "''PHASE 3: PRODUCT BLUEPRINT''"] show ?thesis
    by (simp add: all_present_def write_results_sections nxt_apply write_header_apply
        write_section_None)
next
  case 5
  with assms(1,2) write_section_Str [where title = "''PHASE 1: MARKET RESEARCH''"]
    write_section_Str [where title = "''PHASE 2: OPPORTUNITY ANALYSIS''"]
    write_section_Str [where title = "''PHASE 3: PRODUCT BLUEPRINT''"]
    write_section_Str [where title = "''PHASE 4: GO-TO-MARKET STRATEGY''"] show ?thesis
    by (simp add: all_present_def write_results_sections nxt_apply write_header_apply
        write_section_None)
qed

lemma print_summary_ok:
  assumes "all_present s (Str t1) (Str t2) (Str t3) (Str t4) (Str t5)"
    "open_error w (output_file_name (clock w (ticks s))) = None"
  shows "print_summary w s =
     (Inr (), s\<lparr>console := console s @
                  summary_console (Str t1) (Str t2) (Str t3) (Str t4) (Str t5) @
                  summary_tail w (ticks s),
                ticks := Suc (Suc (Suc (ticks s))),
                files := (files s)(output_file_name (clock w (ticks s)) \<mapsto>
                  results_text (strftime_iso (clock w (Suc (ticks s)))) (model s) t1 t2 t3 t4 t5)\<rparr>)"
  using assms
  by (simp add: print_summary_def print_full_results_ok bnd_apply nxt_apply now_apply gets_apply
      open_w_apply print_apply write_results_ok all_present_def summary_tail_def
      output_file_name_def)

lemma print_summary_open_fails:
  assumes "all_present s v1 v2 v3 v4 v5"
    "open_error w (output_file_name (clock w (ticks s))) = Some m"
  shows "print_summary w s =
     (Inl (OSError m), s\<lparr>console := console s @ summary_console v1 v2 v3 v4 v5,
                          ticks := Suc (ticks s)\<rparr>)"
  using assms
  by (simp add: print_summary_def print_full_results_ok bnd_apply nxt_apply now_apply gets_apply
      open_w_apply output_file_name_def)

lemma print_summary_write_fails:
  assumes "all_present s v1 v2 v3 v4 v5"
    "open_error w (output_file_name (clock w (ticks s))) = None"
    "v1 = NoneVal \<or> v2 = NoneVal \<or> v3 = NoneVal \<or> v4 = NoneVal \<or> v5 = NoneVal"
  shows "fst (print_summary w s) = Inl (TypeError type_error_text)"
proof -
  let ?f = "output_file_name (clock w (ticks s))"
  let ?s = "s\<lparr>console := console s @ summary_console v1 v2 v3 v4 v5, ticks := Suc (ticks s),
               files := (files s)(?f \<mapsto> [])\<rparr>"
  have "all_present ?s v1 v2 v3 v4 v5" "files ?s ?f = Some []"
    using assms(1) by (simp_all add: all_present_def)
  from write_results_fails [OF this assms(3), of w]
  obtain s' where "write_results w ?f ?s = (Inl (TypeError type_error_text), s')"
    by (cases "write_results w ?f ?s") simp
  then show ?thesis
    using assms(1,2)
    by (simp add: print_summary_def print_full_results_ok bnd_apply nxt_apply now_apply gets_apply
        open_w_apply output_file_name_def)
qed

lemma final_fields [simp]:
  "client (final w c q out n fs) = Some (API_KEY (Config w), API_BASE (Config w))"
  "outputs (final w c q out n fs) = out"
  "model (final w c q out n fs) = OPENAI_MODEL (Config w)"
  "console (final w c q out n fs) = c"
  "calls (final w c q out n fs) = q"
  "ticks (final w c q out n fs) = n"
  "files (final w c q out n fs) = fs"
  by (simp_all add: final_def)

lemma final_updates [simp]:
  "(final w c q out n fs)\<lparr>console := c'\<rparr> = final w c' q out n fs"
  "(final w c q out n fs)\<lparr>calls := q'\<rparr> = final w c q' out n fs"
  "(final w c q out n fs)\<lparr>outputs := out'\<rparr> = final w c q out' n fs"
  "(final w c q out n fs)\<lparr>ticks := n'\<rparr> = final w c q out n' fs"
  "(final w c q out n fs)\<lparr>files := fs'\<rparr> = final w c q out n fs'"
  by (simp_all add: final_def)

lemma final_eq_iff [simp]:
  "final w c q out n fs = final w c' q' out' n' fs' \<longleftrightarrow>
   c = c' \<and> q = q' \<and> out = out' \<and> n = n' \<and> fs = fs'"
  by (auto simp add: final_def)

lemma ask_final:
  "ask w req key label (final w c q out n fs) =
     (case answer w (length q) req of
        Inl e \<Rightarrow> (Inl e, final w c (q @ [req]) out n fs)
      | Inr v \<Rightarrow> (Inr (), final w (c @ [Print label, Print (py_str v)]) (q @ [req])
                         (out(key \<mapsto> v)) n fs))"
  by (simp add: ask_def split: sum.splits)

lemma phase_research_final:
  "phase_research w (final w c q out n fs) =
     ask w (research_request w) ''research'' ''\<newline>[ResearchAgent Output]''
       (final w (c @ banner ''PHASE 1: MARKET RESEARCH''
                     ''[ResearchAgent is analyzing the market...]'') q out n fs)"
  by (simp add: phase_research_eq research_request_def)

lemma phase_analysis_final:
  "out ''research'' = Some v \<Longrightarrow>
   phase_analysis w (final w c q out n fs) =
     ask w (analysis_request w v) ''analysis'' ''\<newline>[AnalysisAgent Output]''
       (final w (c @ banner ''PHASE 2: OPPORTUNITY ANALYSIS''
                     ''[AnalysisAgent is identifying opportunities...]'') q out n fs)"
  by (simp add: phase_analysis_eq analysis_request_def)

lemma phase_blueprint_final:
  "out ''analysis'' = Some v \<Longrightarrow>
   phase_blueprint w (final w c q out n fs) =
     ask w (blueprint_request w v) ''blueprint'' ''\<newline>[BlueprintAgent Output]''
       (final w (c @ banner ''PHASE 3: PRODUCT BLUEPRINT''
                     ''[BlueprintAgent is designing the product...]'') q out n fs)"
  by (simp add: phase_blueprint_eq blueprint_request_def)

lemma phase_launch_final:
  "out ''blueprint'' = Some v \<Longrightarrow>
   phase_launch w (final w c q out n fs) =
     ask w (launch_request w v) ''launch'' ''\<newline>[LaunchAgent Output]''
       (final w (c @ banner ''PHASE 4: GO-TO-MARKET STRATEGY''
                     ''[LaunchAgent is planning the go-to-market strategy...]'') q out n fs)"
  by (simp add: phase_launch_eq launch_request_def)

lemma phase_review_final:
  "out ''blueprint'' = Some b \<Longrightarrow> out ''launch'' = Some l \<Longrightarrow>
   phase_review w (final w c q out n fs) =
     ask w (review_request w b l) ''review'' ''\<newline>[ReviewerAgent Output]''
       (final w (c @ banner ''PHASE 5: STRATEGIC REVIEW''
                     ''[ReviewerAgent is providing recommendations...]'') q out n fs)"
  by (simp add: phase_review_eq review_request_def)

lemma init_ok:
  "validate_setup (Config w) \<Longrightarrow>
   init w initial_state = (Inr (), final w (init_console w) [] Map.empty 0 Map.empty)"
  by (simp add: init_def exec initial_state_def final_def init_console_def)

lemma run_heading_final:
  "run_heading w (final w c q out n fs) =
     (Inr (), final w (c @ heading_console w n) q out (Suc n) fs)"
  by (simp add: run_heading_def exec heading_console_def)

lemmas run_steps = try_body_def run_parts phases_def nxt_apply init_ok run_heading_final
  phase_research_final phase_analysis_final phase_blueprint_final phase_launch_final
  phase_review_final ask_final eval_nat_numeral

lemma try_body_fail1:
  assumes "validate_setup (Config w)" "answer w 0 (research_request w) = Inl e"
  shows "\<exists>c. try_body w initial_state = (Inl e, final w c [research_request w] Map.empty 1 Map.empty)"
  using assms by (simp add: run_steps)

lemma try_body_fail2:
  assumes "validate_setup (Config w)" "answer w 0 (research_request w) = Inr v1"
    "answer w 1 (analysis_request w v1) = Inl e"
  shows "\<exists>c. try_body w initial_state =
     (Inl e, final w c [research_request w, analysis_request w v1] [''research'' \<mapsto> v1] 1 Map.empty)"
  using assms by (simp add: run_steps)

lemma try_body_fail3:
  assumes "validate_setup (Config w)" "answer w 0 (research_request w) = Inr v1"
    "answer w 1 (analysis_request w v1) = Inr v2"
    "answer w 2 (blueprint_request w v2) = Inl e"
  shows "\<exists>c. try_body w initial_state =
     (Inl e, final w c [research_request w, analysis_request w v1, blueprint_request w v2]
        [''research'' \<mapsto> v1, ''analysis'' \<mapsto> v2] 1 Map.empty)"
  using assms by (simp add: run_steps)

lemma try_body_fail4:
  assumes "validate_setup (Config w)" "answer w 0 (research_request w) = Inr v1"
    "answer w 1 (analysis_request w v1) = Inr v2"
    "answer w 2 (blueprint_request w v2) = Inr v3"
    "answer w 3 (launch_request w v3) = Inl e"
  shows "\<exists>c. try_body w initial_state =
     (Inl e, final w c [research_request w, analysis_request w v1, blueprint_request w v2,
          launch_request w v3]
        [''research'' \<mapsto> v1, ''analysis'' \<mapsto> v2, ''blueprint'' \<mapsto> v3] 1 Map.empty)"
  using assms by (simp add: run_steps)

lemma try_body_fail5:
  assumes "validate_setup (Config w)" "answer w 0 (research_request w) = Inr v1"
    "answer w 1 (analysis_request w v1) = Inr v2"
    "answer w 2 (blueprint_request w v2) = Inr v3"
    "answer w 3 (launch_request w v3) = Inr v4"
    "answer w 4 (review_request w v3 v4) = Inl e"
  shows "\<exists>c. try_body w initial_state =
     (Inl e, final w c [research_request w, analysis_request w v1, blueprint_request w v2,
          launch_request w v3, review_request w v3 v4]
        [''research'' \<mapsto> v1, ''analysis'' \<mapsto> v2, ''blueprint'' \<mapsto> v3, ''launch'' \<mapsto> v4]
        1 Map.empty)"
  using assms by (simp add: run_steps)

lemma all_present_all_outputs [simp]:
  "all_present (final w c q (all_outputs v1 v2 v3 v4 v5) n fs) v1 v2 v3 v4 v5"
  by (simp add: all_present_def all_outputs_def)

lemma try_body_front:
  "try_body w = nxt (front w) (nxt (print_summary w) (print success_text))"
  by (simp only: try_body_def run_parts front_def success_text_def nxt_def bnd_assoc)

lemma front_done:
  assumes "validate_setup (Config w)" "five_answers w v1 v2 v3 v4 v5"
  shows "\<exists>c. front w initial_state =
     (Inr (), final w c (all_requests w v1 v2 v3 v4) (all_outputs v1 v2 v3 v4 v5) 1 Map.empty)"
  using assms
  by (simp add: front_def run_steps five_answers_def all_requests_def all_outputs_def)

lemma try_body_open_fails:
  assumes "validate_setup (Config w)" "five_answers w v1 v2 v3 v4 v5"
    "open_error w (output_file_name (clock w 1)) = Some m"
  shows "\<exists>c. try_body w initial_state =
     (Inl (OSError m),
      final w c (all_requests w v1 v2 v3 v4) (all_outputs v1 v2 v3 v4 v5) 2 Map.empty)"
proof -
  from front_done [OF assms(1,2)] obtain c where
    "front w initial_state =
       (Inr (), final w c (all_requests w v1 v2 v3 v4) (all_outputs v1 v2 v3 v4 v5) 1 Map.empty)" ..
  then show ?thesis
    using assms(3)
    by (simp add: try_body_front nxt_apply
        print_summary_open_fails [where ?v1.0 = v1 and ?v2.0 = v2 and ?v3.0 = v3 and ?v4.0 = v4
          and ?v5.0 = v5])
qed

lemma try_body_ok:
  assumes "validate_setup (Config w)" "five_answers w (Str t1) (Str t2) (Str t3) (Str t4) (Str t5)"
    "open_error w (output_file_name (clock w 1)) = None"
  shows "\<exists>c. try_body w initial_state =
     (Inr (),
      final w (c @ summary_console (Str t1) (Str t2) (Str t3) (Str t4) (Str t5) @
                 summary_tail w 1 @ [Print success_text])
        (all_requests w (Str t1) (Str t2) (Str t3) (Str t4))
        (all_outputs (Str t1) (Str t2) (Str t3) (Str t4) (Str t5)) 4
        [output_file_name (clock w 1) \<mapsto>
           results_text (strftime_iso (clock w 2)) (OPENAI_MODEL (Config w)) t1 t2 t3 t4 t5])"
proof -
  from front_done [OF assms(1,2)] obtain c where
    "front w initial_state =
       (Inr (), final w c (all_requests w (Str t1) (Str t2) (Str t3) (Str t4))
          (all_outputs (Str t1) (Str t2) (Str t3) (Str t4) (Str t5)) 1 Map.empty)" ..
  then show ?thesis
    using assms(3)
    by (simp add: try_body_front nxt_apply print_apply eval_nat_numeral
        print_summary_ok [where ?t1.0 = t1 and ?t2.0 = t2 and ?t3.0 = t3 and ?t4.0 = t4
          and ?t5.0 = t5])
qed

lemma state_is_final:
  assumes "client s = Some (API_KEY (Config w), API_BASE (Config w))"
    "model s = OPENAI_MODEL (Config w)"
  shows "s = final w (console s) (calls s) (outputs s) (ticks s) (files s)"
  using assms by (simp add: final_def)

lemma try_body_write_fails:
  assumes "validate_setup (Config w)" "five_answers w v1 v2 v3 v4 v5"
    "open_error w (output_file_name (clock w 1)) = None"
    "v1 = NoneVal \<or> v2 = NoneVal \<or> v3 = NoneVal \<or> v4 = NoneVal \<or> v5 = NoneVal"
  shows "\<exists>c n fs. try_body w initial_state =
     (Inl (TypeError type_error_text),
      final w c (all_requests w v1 v2 v3 v4) (all_outputs v1 v2 v3 v4 v5) n fs)"
proof -
  let ?q = "all_requests w v1 v2 v3 v4" and ?out = "all_outputs v1 v2 v3 v4 v5"
  from front_done [OF assms(1,2)] obtain c where
    front: "front w initial_state = (Inr (), final w c ?q ?out 1 Map.empty)" ..
  let ?s = "final w c ?q ?out 1 Map.empty"
  obtain r s' where ps: "print_summary w ?s = (r, s')"
    by (cases "print_summary w ?s")
  have "fst (print_summary w ?s) = Inl (TypeError type_error_text)"
    using assms(3,4) by (intro print_summary_write_fails [where ?v1.0 = v1 and ?v2.0 = v2
          and ?v3.0 = v3 and ?v4.0 = v4 and ?v5.0 = v5]) simp_all
  with ps have r: "r = Inl (TypeError type_error_text)" by simp
  from print_summary_frame [OF ps] have "s' = final w (console s') ?q ?out (ticks s') (files s')"
    using state_is_final [of s' w] by simp
  with front ps r have "try_body w initial_state =
      (Inl (TypeError type_error_text), final w (console s') ?q ?out (ticks s') (files s'))"
    by (simp add: try_body_front nxt_apply)
  then show ?thesis by blast
qed

lemma handler_apply:
  "handler e s = (Inr (), s\<lparr>console := console s @ handler_console e\<rparr>)"
  by (simp add: handler_def exec handler_console_def)

lemma main_handled:
  "try_body w initial_state = (Inl e, s) \<Longrightarrow> is_Exception e \<Longrightarrow>
   main w = (0, s\<lparr>console := console s @ handler_console e\<rparr>)"
  by (simp add: main_def handler_apply)

lemma main_completed:
  "try_body w initial_state = (Inr u, s) \<Longrightarrow> main w = (0, s)"
  by (simp add: main_def)

lemma answer_Inl_Exception: "answer w n req = Inl e \<Longrightarrow> is_Exception e"
  by (auto simp add: answer_def split: sum.splits list.splits)

lemma main_cases [consumes 1, case_names research_fails analysis_fails blueprint_fails
    launch_fails review_fails open_fails write_fails completed]:
  assumes valid: "validate_setup (Config w)"
  obtains
    (research_fails) e c where
      "answer w 0 (research_request w) = Inl e"
      "try_body w initial_state = (Inl e, final w c [research_request w] Map.empty 1 Map.empty)"
      "main w = (0, final w (c @ handler_console e) [research_request w] Map.empty 1 Map.empty)"
  | (analysis_fails) v1 e c where
      "answer w 0 (research_request w) = Inr v1"
      "answer w 1 (analysis_request w v1) = Inl e"
      "try_body w initial_state =
         (Inl e, final w c [research_request w, analysis_request w v1]
            [''research'' \<mapsto> v1] 1 Map.empty)"
      "main w =
         (0, final w (c @ handler_console e) [research_request w, analysis_request w v1]
            [''research'' \<mapsto> v1] 1 Map.empty)"
  | (blueprint_fails) v1 v2 e c where
      "answer w 0 (research_request w) = Inr v1"
      "answer w 1 (analysis_request w v1) = Inr v2"
      "answer w 2 (blueprint_request w v2) = Inl e"
      "try_body w initial_state =
         (Inl e, final w c [research_request w, analysis_request w v1, blueprint_request w v2]
            [''research'' \<mapsto> v1, ''analysis'' \<mapsto> v2] 1 Map.empty)"
      "main w =
         (0, final w (c @ handler_console e)
            [research_request w, analysis_request w v1, blueprint_request w v2]
            [''research'' \<mapsto> v1, ''analysis'' \<mapsto> v2] 1 Map.empty)"
  | (launch_fails) v1 v2 v3 e c where
      "answer w 0 (research_request w) = Inr v1"
      "answer w 1 (analysis_request w v1) = Inr v2"
      "answer w 2 (blueprint_request w v2) = Inr v3"
      "answer w 3 (launch_request w v3) = Inl e"
      "try_body w initial_state =
         (Inl e, final w c
            [research_request w, analysis_request w v1, blueprint_request w v2,
             launch_request w v3]
            [''research'' \<mapsto> v1, ''analysis'' \<mapsto> v2, ''blueprint'' \<mapsto> v3] 1 Map.empty)"
      "main w =
         (0, final w (c @ handler_console e)
            [research_request w, analysis_request w v1, blueprint_request w v2,
             launch_request w v3]
            [''research'' \<mapsto> v1, ''analysis'' \<mapsto> v2, ''blueprint'' \<mapsto> v3] 1 Map.empty)"
  | (review_fails) v1 v2 v3 v4 e c where
      "answer w 0 (research_request w) = Inr v1"
      "answer w 1 (analysis_request w v1) = Inr v2"
      "answer w 2 (blueprint_request w v2) = Inr v3"
      "answer w 3 (launch_request w v3) = Inr v4"
      "answer w 4 (review_request w v3 v4) = Inl e"
      "try_body w initial_state =
         (Inl e, final w c
            [research_request w, analysis_request w v1, blueprint_request w v2,
             launch_request w v3, review_request w v3 v4]
            [''research'' \<mapsto> v1, ''analysis'' \<mapsto> v2, ''blueprint'' \<mapsto> v3, ''launch'' \<mapsto> v4]
            1 Map.empty)"
      "main w =
         (0, final w (c @ handler_console e)
            [research_request w, analysis_request w v1, blueprint_request w v2,
             launch_request w v3, review_request w v3 v4]
            [''research'' \<mapsto> v1, ''analysis'' \<mapsto> v2, ''blueprint'' \<mapsto> v3, ''launch'' \<mapsto> v4]
            1 Map.empty)"
  | (open_fails) v1 v2 v3 v4 v5 m c where
      "five_answers w v1 v2 v3 v4 v5"
      "open_error w (output_file_name (clock w 1)) = Some m"
      "try_body w initial_state =
         (Inl (OSError m),
          final w c (all_requests w v1 v2 v3 v4) (all_outputs v1 v2 v3 v4 v5) 2 Map.empty)"
      "main w =
         (0, final w (c @ handler_console (OSError m)) (all_requests w v1 v2 v3 v4)
               (all_outputs v1 v2 v3 v4 v5) 2 Map.empty)"
  | (write_fails) v1 v2 v3 v4 v5 c n fs where
      "five_answers w v1 v2 v3 v4 v5"
      "open_error w (output_file_name (clock w 1)) = None"
      "v1 = NoneVal \<or> v2 = NoneVal \<or> v3 = NoneVal \<or> v4 = NoneVal \<or> v5 = NoneVal"
      "try_body w initial_state =
         (Inl (TypeError type_error_text),
          final w c (all_requests w v1 v2 v3 v4) (all_outputs v1 v2 v3 v4 v5) n fs)"
      "main w =
         (0, final w (c @ handler_console (TypeError type_error_text))
               (all_requests w v1 v2 v3 v4) (all_outputs v1 v2 v3 v4 v5) n fs)"
  | (completed) t1 t2 t3 t4 t5 c where
      "five_answers w (Str t1) (Str t2) (Str t3) (Str t4) (Str t5)"
      "open_error w (output_file_name (clock w 1)) = None"
      "try_body w initial_state =
         (Inr (),
          final w (c @ summary_console (Str t1) (Str t2) (Str t3) (Str t4) (Str t5) @
                     summary_tail w 1 @ [Print success_text])
            (all_requests w (Str t1) (Str t2) (Str t3) (Str t4))
            (all_outputs (Str t1) (Str t2) (Str t3) (Str t4) (Str t5)) 4
            [output_file_name (clock w 1) \<mapsto>
               results_text (strftime_iso (clock w 2)) (OPENAI_MODEL (Config w))
                 t1 t2 t3 t4 t5])"
      "main w =
         (0,
          final w (c @ summary_console (Str t1) (Str t2) (Str t3) (Str t4) (Str t5) @
                     summary_tail w 1 @ [Print success_text])
            (all_requests w (Str t1) (Str t2) (Str t3) (Str t4))
            (all_outputs (Str t1) (Str t2) (Str t3) (Str t4) (Str t5)) 4
            [output_file_name (clock w 1) \<mapsto>
               results_text (strftime_iso (clock w 2)) (OPENAI_MODEL (Config w))
                 t1 t2 t3 t4 t5])"
proof (cases "answer w 0 (research_request w)")
  case (Inl e)
  from try_body_fail1 [OF valid Inl] obtain c where
    tb: "try_body w initial_state = (Inl e, final w c [research_request w] Map.empty 1 Map.empty)" ..
  show thesis
    using Inl tb main_handled [OF tb answer_Inl_Exception [OF Inl]]
    by (intro research_fails [of e c]) simp_all
next
  case a1: (Inr v1)
  show thesis
  proof (cases "answer w 1 (analysis_request w v1)")
    case (Inl e)
    from try_body_fail2 [OF valid a1 Inl] obtain c where
      tb: "try_body w initial_state =
        (Inl e, final w c [research_request w, analysis_request w v1]
           [''research'' \<mapsto> v1] 1 Map.empty)" ..
    show thesis
      using a1 Inl tb main_handled [OF tb answer_Inl_Exception [OF Inl]]
      by (intro analysis_fails [of v1 e c]) simp_all
  next
    case a2: (Inr v2)
    show thesis
    proof (cases "answer w 2 (blueprint_request w v2)")
      case (Inl e)
      from try_body_fail3 [OF valid a1 a2 Inl] obtain c where
        tb: "try_body w initial_state =
          (Inl e, final w c [research_request w, analysis_request w v1, blueprint_request w v2]
             [''research'' \<mapsto> v1, ''analysis'' \<mapsto> v2] 1 Map.empty)" ..
      show thesis
        using a1 a2 Inl tb main_handled [OF tb answer_Inl_Exception [OF Inl]]
        by (intro blueprint_fails [of v1 v2 e c]) simp_all
    next
      case a3: (Inr v3)
      show thesis
      proof (cases "answer w 3 (launch_request w v3)")
        case (Inl e)
        from try_body_fail4 [OF valid a1 a2 a3 Inl] obtain c where
          tb: "try_body w initial_state =
            (Inl e, final w c
               [research_request w, analysis_request w v1, blueprint_request w v2,
                launch_request w v3]
               [''research'' \<mapsto> v1, ''analysis'' \<mapsto> v2, ''blueprint'' \<mapsto> v3] 1 Map.empty)" ..
        show thesis
          using a1 a2 a3 Inl tb main_handled [OF tb answer_Inl_Exception [OF Inl]]
          by (intro launch_fails [of v1 v2 v3 e c]) simp_all
      next
        case a4: (Inr v4)
        show thesis
        proof (cases "answer w 4 (review_request w v3 v4)")
          case (Inl e)
          from try_body_fail5 [OF valid a1 a2 a3 a4 Inl] obtain c where
            tb: "try_body w initial_state =
              (Inl e, final w c
                 [research_request w, analysis_request w v1, blueprint_request w v2,
                  launch_request w v3, review_request w v3 v4]
                 [''research'' \<mapsto> v1, ''analysis'' \<mapsto> v2, ''blueprint'' \<mapsto> v3,
                  ''launch'' \<mapsto> v4] 1 Map.empty)" ..
          show thesis
            using a1 a2 a3 a4 Inl tb main_handled [OF tb answer_Inl_Exception [OF Inl]]
            by (intro review_fails [of v1 v2 v3 v4 e c]) simp_all
        next
          case a5: (Inr v5)
          have five: "five_answers w v1 v2 v3 v4 v5"
            using a1 a2 a3 a4 a5 by (simp add: five_answers_def)
          show thesis
          proof (cases "open_error w (output_file_name (clock w 1))")
            case (Some m)
            from try_body_open_fails [OF valid five Some] obtain c where
              tb: "try_body w initial_state =
                (Inl (OSError m),
                 final w c (all_requests w v1 v2 v3 v4) (all_outputs v1 v2 v3 v4 v5) 2
                   Map.empty)" ..
            show thesis
              using five Some tb main_handled [OF tb]
              by (intro open_fails [of v1 v2 v3 v4 v5 m c]) simp_all
          next
            case None
            show thesis
            proof (cases "v1 = NoneVal \<or> v2 = NoneVal \<or> v3 = NoneVal \<or> v4 = NoneVal \<or>
                v5 = NoneVal")
              case True
              from try_body_write_fails [OF valid five None True] obtain c n fs where
                tb: "try_body w initial_state =
                  (Inl (TypeError type_error_text),
                   final w c (all_requests w v1 v2 v3 v4) (all_outputs v1 v2 v3 v4 v5) n fs)"
                by blast
              show thesis
                using five None True tb main_handled [OF tb]
                by (intro write_fails [of v1 v2 v3 v4 v5 c n fs]) simp_all
            next
              case False
              then obtain t1 t2 t3 t4 t5 where
                v: "v1 = Str t1" "v2 = Str t2" "v3 = Str t3" "v4 = Str t4" "v5 = Str t5"
                by (cases v1; cases v2; cases v3; cases v4; cases v5) auto
              from try_body_ok [OF valid five [unfolded v] None] obtain c where
                tb: "try_body w initial_state =
                  (Inr (),
                   final w (c @ summary_console (Str t1) (Str t2) (Str t3) (Str t4) (Str t5) @
                              summary_tail w 1 @ [Print success_text])
                     (all_requests w (Str t1) (Str t2) (Str t3) (Str t4))
                     (all_outputs (Str t1) (Str t2) (Str t3) (Str t4) (Str t5)) 4
                     [output_file_name (clock w 1) \<mapsto>
                        results_text (strftime_iso (clock w 2)) (OPENAI_MODEL (Config w))
                          t1 t2 t3 t4 t5])" ..
              show thesis
                using five [unfolded v] None tb main_completed [OF tb]
                by (intro completed [of t1 t2 t3 t4 t5 c]) simp_all
            qed
          qed
        qed
      qed
    qed
  qed
qed

section \<open>Configuration failure\<close>

lemma main_unconfigured:
  "\<not> validate_setup (Config w) \<Longrightarrow>
   main w = (1, initial_state\<lparr>console := [Print ''ERROR: Configuration validation failed!'']\<rparr>)"
  by (simp add: main_def try_body_def init_def exec initial_state_def)

text \<open>
  C5. If \<^verbatim>\<open>Config.validate_setup()\<close> fails, the process ends without a single call to the
  completion service: the request log is empty, and all the console shows is the error line
  of \<^verbatim>\<open>__init__\<close>, so no phase has begun.
\<close>

theorem no_remote_call_without_valid_config:
  assumes "\<not> validate_setup (Config w)"
  shows "calls (snd (main w)) = [] \<and>
         console (snd (main w)) = [Print ''ERROR: Configuration validation failed!'']"
  by (simp add: main_unconfigured [OF assms] initial_state_def)

theorem no_remote_call_without_valid_config_witness:
  "\<not> validate_setup (Config unconfigured_world) \<and>
   calls (snd (main unconfigured_world)) = [] \<and>
   console (snd (main unconfigured_world)) = [Print ''ERROR: Configuration validation failed!'']"
proof -
  have h: "\<not> validate_setup (Config unconfigured_world)"
    by (simp add: unconfigured_world_def stub_world_def sample_config_def)
  show ?thesis
    using h no_remote_call_without_valid_config [OF h] by simp
qed

section \<open>Sample runs\<close>

lemmas request_defs = research_request_def analysis_request_def blueprint_request_def
  launch_request_def review_request_def chat_request_def

lemma stub_answers:
  "five_answers stub_world (Str ''R'') (Str ''A'') (Str ''B'') (Str ''L'') (Str ''V'')"
  by (simp add: five_answers_def answer_def stub_world_def stub_reply_def)

lemma stub_valid: "validate_setup (Config stub_world)"
  by (simp add: stub_world_def sample_config_def)

lemma stub_main:
  "\<exists>c. main stub_world =
     (0, final stub_world c
           (all_requests stub_world (Str ''R'') (Str ''A'') (Str ''B'') (Str ''L''))
           (all_outputs (Str ''R'') (Str ''A'') (Str ''B'') (Str ''L'') (Str ''V'')) 4
           [output_file_name sample_time \<mapsto>
              results_text (strftime_iso sample_time) ''gpt-4o-mini''
                ''R'' ''A'' ''B'' ''L'' ''V''])"
proof -
  have "open_error stub_world (output_file_name (clock stub_world 1)) = None"
    by (simp add: stub_world_def)
  from try_body_ok [OF stub_valid stub_answers this] obtain c where
    "try_body stub_world initial_state =
       (Inr (), final stub_world
          (c @ summary_console (Str ''R'') (Str ''A'') (Str ''B'') (Str ''L'') (Str ''V'') @
             summary_tail stub_world 1 @ [Print success_text])
          (all_requests stub_world (Str ''R'') (Str ''A'') (Str ''B'') (Str ''L''))
          (all_outputs (Str ''R'') (Str ''A'') (Str ''B'') (Str ''L'') (Str ''V'')) 4
          [output_file_name (clock stub_world 1) \<mapsto>
             results_text (strftime_iso (clock stub_world 2)) (OPENAI_MODEL (Config stub_world))
               ''R'' ''A'' ''B'' ''L'' ''V''])" ..
  from main_completed [OF this] show ?thesis
    by (simp add: stub_world_def sample_config_def)
qed

section \<open>Context passing\<close>

lemma user_message_contains:
  "sublist (py_str v) (analysis_user_message v)"
  "sublist (py_str v) (blueprint_user_message v)"
  "sublist (py_str v) (launch_user_message v)"
  "sublist (py_str b) (review_user_message b l)"
  "sublist (py_str l) (review_user_message b l)"
proof -
  show "sublist (py_str v) (analysis_user_message v)"
    unfolding analysis_user_message_def by (rule sublist_appendI)
  show "sublist (py_str v) (blueprint_user_message v)"
    unfolding blueprint_user_message_def by (rule sublist_appendI)
  show "sublist (py_str v) (launch_user_message v)"
    unfolding launch_user_message_def by (rule sublist_appendI)
  show "sublist (py_str b) (review_user_message b l)"
    unfolding review_user_message_def by (rule sublist_appendI)
  have "sublist (py_str l)
      ((''Product Blueprint:\<newline>'' @ py_str b @ ''\<newline>\<newline>Launch Plan:\<newline>'') @ py_str l @
       ''\<newline>\<newline>Provide strategic review and recommendations.'')"
    by (rule sublist_appendI)
  then show "sublist (py_str l) (review_user_message b l)"
    unfolding review_user_message_def by (simp only: append_assoc)
qed

lemma user_message_contains_text:
  "sublist t (analysis_user_message (Str t))"
  "sublist t (blueprint_user_message (Str t))"
  "sublist t (launch_user_message (Str t))"
  "sublist t (review_user_message (Str t) l)"
  "sublist t (review_user_message b (Str t))"
  using user_message_contains(1-3) [of "Str t"] user_message_contains(4) [of "Str t" l]
    user_message_contains(5) [of "Str t" b]
  by simp_all

text \<open>
  C1. In every run, the request of the analysis phase (the second request sent, the one with
  the analysis instruction) has a user message that contains the stored research output;
  the blueprint request contains the stored analysis output, the launch request the stored
  blueprint output, and the review request both the stored blueprint and the stored launch
  output. The stored value is shown as an f-string shows it: a text verbatim.
\<close>

theorem context_passing:
  "(1 < length (calls (snd (main w))) \<longrightarrow>
      (\<exists>v. outputs (snd (main w)) ''research'' = Some v \<and>
           content (req_messages (calls (snd (main w)) ! 1) ! 0) = analysis_system_prompt \<and>
           sublist (py_str v) (content (req_messages (calls (snd (main w)) ! 1) ! 1)))) \<and>
   (2 < length (calls (snd (main w))) \<longrightarrow>
      (\<exists>v. outputs (snd (main w)) ''analysis'' = Some v \<and>
           content (req_messages (calls (snd (main w)) ! 2) ! 0) = blueprint_system_prompt \<and>
           sublist (py_str v) (content (req_messages (calls (snd (main w)) ! 2) ! 1)))) \<and>
   (3 < length (calls (snd (main w))) \<longrightarrow>
      (\<exists>v. outputs (snd (main w)) ''blueprint'' = Some v \<and>
           content (req_messages (calls (snd (main w)) ! 3) ! 0) = launch_system_prompt \<and>
           sublist (py_str v) (content (req_messages (calls (snd (main w)) ! 3) ! 1)))) \<and>
   (4 < length (calls (snd (main w))) \<longrightarrow>
      (\<exists>b l. outputs (snd (main w)) ''blueprint'' = Some b \<and>
           outputs (snd (main w)) ''launch'' = Some l \<and>
           content (req_messages (calls (snd (main w)) ! 4) ! 0) = review_system_prompt \<and>
           sublist (py_str b) (content (req_messages (calls (snd (main w)) ! 4) ! 1)) \<and>
           sublist (py_str l) (content (req_messages (calls (snd (main w)) ! 4) ! 1))))"
proof (cases "validate_setup (Config w)")
  case False
  then show ?thesis by (simp add: main_unconfigured initial_state_def)
next
  case True
  note defs = request_defs user_message_contains user_message_contains_text eval_nat_numeral all_requests_def all_outputs_def
  from True show ?thesis
  proof (cases rule: main_cases)
    case (research_fails e c)
    from research_fails(3) show ?thesis by simp
  next
    case (analysis_fails v1 e c)
    from analysis_fails(4) show ?thesis by (simp add: defs)
  next
    case (blueprint_fails v1 v2 e c)
    from blueprint_fails(5) show ?thesis by (simp add: defs)
  next
    case (launch_fails v1 v2 v3 e c)
    from launch_fails(6) show ?thesis by (simp add: defs)
  next
    case (review_fails v1 v2 v3 v4 e c)
    from review_fails(7) show ?thesis by (simp add: defs)
  next
    case (open_fails v1 v2 v3 v4 v5 m c)
    from open_fails(4) show ?thesis by (simp add: defs)
  next
    case (write_fails v1 v2 v3 v4 v5 c n fs)
    from write_fails(5) show ?thesis by (simp add: defs)
  next
    case (completed t1 t2 t3 t4 t5 c)
    from completed(4) show ?thesis by (simp add: defs)
  qed
qed

theorem context_passing_witness:
  "1 < length (calls (snd (main stub_world))) \<and>
   outputs (snd (main stub_world)) ''research'' = Some (Str ''R'') \<and>
   sublist ''R'' (content (req_messages (calls (snd (main stub_world)) ! 1) ! 1)) \<and>
   4 < length (calls (snd (main stub_world))) \<and>
   outputs (snd (main stub_world)) ''blueprint'' = Some (Str ''B'') \<and>
   outputs (snd (main stub_world)) ''launch'' = Some (Str ''L'') \<and>
   sublist ''B'' (content (req_messages (calls (snd (main stub_world)) ! 4) ! 1)) \<and>
   sublist ''L'' (content (req_messages (calls (snd (main stub_world)) ! 4) ! 1))"
proof -
  from stub_main obtain c where
    m: "main stub_world =
     (0, final stub_world c
           (all_requests stub_world (Str ''R'') (Str ''A'') (Str ''B'') (Str ''L''))
           (all_outputs (Str ''R'') (Str ''A'') (Str ''B'') (Str ''L'') (Str ''V'')) 4
           [output_file_name sample_time \<mapsto>
              results_text (strftime_iso sample_time) ''gpt-4o-mini''
                ''R'' ''A'' ''B'' ''L'' ''V''])" ..
  have l: "length (calls (snd (main stub_world))) = 5"
    and o: "outputs (snd (main stub_world)) ''research'' = Some (Str ''R'')"
      "outputs (snd (main stub_world)) ''blueprint'' = Some (Str ''B'')"
      "outputs (snd (main stub_world)) ''launch'' = Some (Str ''L'')"
    by (simp_all add: m all_requests_def all_outputs_def)
  show ?thesis
    using context_passing [of stub_world] by (simp add: l o)
qed

lemma answer_Inl_D:
  "answer w n q = Inl e \<Longrightarrow> remote w n q = Inr r \<Longrightarrow> choices r = []"
  by (auto simp add: answer_def split: list.splits)

lemma answer_Inr_D:
  "answer w n q = Inr v \<Longrightarrow> remote w n q \<noteq> Inl m"
  by (auto simp add: answer_def split: list.splits)

lemma five_answers_D:
  assumes "five_answers w v1 v2 v3 v4 v5" "i < 5"
  shows "remote w i (all_requests w v1 v2 v3 v4 ! i) \<noteq> Inl m"
proof -
  from assms(2) consider "i = 0" | "i = 1" | "i = 2" | "i = 3" | "i = 4" by linarith
  then show ?thesis
    using assms(1)
    by cases (auto simp add: five_answers_def all_requests_def eval_nat_numeral
        dest: answer_Inr_D)
qed

section \<open>Shape of the requests\<close>

text \<open>
  C9. Every request sent to the completion service during a run carries exactly two
  messages, the first with role \<open>system\<close> and the second with role \<open>user\<close>, and the model
  identifier, temperature and token limit of the configuration.
\<close>

theorem request_shape:
  "\<forall>req \<in> set (calls (snd (main w))).
     length (req_messages req) = 2 \<and>
     role (req_messages req ! 0) = ''system'' \<and>
     role (req_messages req ! 1) = ''user'' \<and>
     req_model req = OPENAI_MODEL (Config w) \<and>
     req_temperature req = AGENT_TEMPERATURE (Config w) \<and>
     req_max_tokens req = AGENT_MAX_TOKENS (Config w)"
proof (cases "validate_setup (Config w)")
  case False
  then show ?thesis by (simp add: main_unconfigured initial_state_def)
next
  case True
  note defs = request_defs all_requests_def
  from True show ?thesis
  proof (cases rule: main_cases)
    case (research_fails e c)
    from research_fails(3) show ?thesis by (simp add: defs)
  next
    case (analysis_fails v1 e c)
    from analysis_fails(4) show ?thesis by (simp add: defs)
  next
    case (blueprint_fails v1 v2 e c)
    from blueprint_fails(5) show ?thesis by (simp add: defs)
  next
    case (launch_fails v1 v2 v3 e c)
    from launch_fails(6) show ?thesis by (simp add: defs)
  next
    case (review_fails v1 v2 v3 v4 e c)
    from review_fails(7) show ?thesis by (simp add: defs)
  next
    case (open_fails v1 v2 v3 v4 v5 m c)
    from open_fails(4) show ?thesis by (simp add: defs)
  next
    case (write_fails v1 v2 v3 v4 v5 c n fs)
    from write_fails(5) show ?thesis by (simp add: defs)
  next
    case (completed t1 t2 t3 t4 t5 c)
    from completed(4) show ?thesis by (simp add: defs)
  qed
qed

theorem request_shape_witness:
  "calls (snd (main stub_world)) \<noteq> [] \<and>
   list_all (\<lambda>req.
     length (req_messages req) = 2 \<and>
     role (req_messages req ! 0) = ''system'' \<and>
     role (req_messages req ! 1) = ''user'' \<and>
     req_model req = ''gpt-4o-mini'' \<and>
     req_temperature req = 7 / 10 \<and>
     req_max_tokens req = 500) (calls (snd (main stub_world)))"
proof -
  from stub_main obtain c where
    m: "main stub_world =
     (0, final stub_world c
           (all_requests stub_world (Str ''R'') (Str ''A'') (Str ''B'') (Str ''L''))
           (all_outputs (Str ''R'') (Str ''A'') (Str ''B'') (Str ''L'') (Str ''V'')) 4
           [output_file_name sample_time \<mapsto>
              results_text (strftime_iso sample_time) ''gpt-4o-mini''
                ''R'' ''A'' ''B'' ''L'' ''V''])" ..
  have n: "calls (snd (main stub_world)) \<noteq> []"
    by (simp add: m all_requests_def)
  have c: "OPENAI_MODEL (Config stub_world) = ''gpt-4o-mini''"
    "AGENT_TEMPERATURE (Config stub_world) = 7 / 10"
    "AGENT_MAX_TOKENS (Config stub_world) = 500"
    by (simp_all add: stub_world_def sample_config_def)
  show ?thesis
    using n request_shape [of stub_world] unfolding c list_all_iff by blast
qed

section \<open>The five phases\<close>

lemma answer_Inl_not_answered: "answer w n q = Inl e \<Longrightarrow> \<not> answered w n q"
  by (auto simp add: answer_def answered_def split: sum.splits list.splits)

lemma all_outputs_dom:
  "dom (all_outputs v1 v2 v3 v4 v5) = {''research'', ''analysis'', ''blueprint'', ''launch'', ''review''}"
  by (auto simp add: all_outputs_def)

lemma all_requests_prompts:
  "map (\<lambda>req. content (req_messages req ! 0)) (all_requests w v1 v2 v3 v4) = system_prompts"
  by (simp add: all_requests_def request_defs system_prompts_def)

text \<open>
  C2. With a valid configuration, if every call made to the completion service during the
  run is answered (with a completion that has at least one choice), then exactly five
  requests were sent, and their instructions are those of the research, analysis,
  blueprint, launch and review phases in this order; afterwards the output mapping has
  exactly the five phase names as keys.
\<close>

theorem five_phases_in_order:
  assumes "validate_setup (Config w)"
    and "\<forall>i < length (calls (snd (main w))). answered w i (calls (snd (main w)) ! i)"
  shows "map (\<lambda>req. content (req_messages req ! 0)) (calls (snd (main w))) = system_prompts \<and>
         length (calls (snd (main w))) = 5 \<and>
         dom (outputs (snd (main w))) =
           {''research'', ''analysis'', ''blueprint'', ''launch'', ''review''} \<and>
         card (dom (outputs (snd (main w)))) = 5"
  using assms(1)
proof (cases rule: main_cases)
  case (research_fails e c)
  from assms(2) [rule_format, of 0] research_fails(3) have "answered w 0 (research_request w)" by simp
  with answer_Inl_not_answered [OF research_fails(1)] show ?thesis by simp
next
  case (analysis_fails v1 e c)
  from assms(2) [rule_format, of 1] analysis_fails(4) have "answered w 1 (analysis_request w v1)" by simp
  with answer_Inl_not_answered [OF analysis_fails(2)] show ?thesis by simp
next
  case (blueprint_fails v1 v2 e c)
  from assms(2) [rule_format, of 2] blueprint_fails(5) have "answered w 2 (blueprint_request w v2)"
    by (simp add: eval_nat_numeral)
  with answer_Inl_not_answered [OF blueprint_fails(3)] show ?thesis by (simp add: eval_nat_numeral)
next
  case (launch_fails v1 v2 v3 e c)
  from assms(2) [rule_format, of 3] launch_fails(6) have "answered w 3 (launch_request w v3)"
    by (simp add: eval_nat_numeral)
  with answer_Inl_not_answered [OF launch_fails(4)] show ?thesis by (simp add: eval_nat_numeral)
next
  case (review_fails v1 v2 v3 v4 e c)
  from assms(2) [rule_format, of 4] review_fails(7) have "answered w 4 (review_request w v3 v4)"
    by (simp add: eval_nat_numeral)
  with answer_Inl_not_answered [OF review_fails(5)] show ?thesis by (simp add: eval_nat_numeral)
next
  case (open_fails v1 v2 v3 v4 v5 m c)
  from open_fails(4) show ?thesis
    by (simp add: all_outputs_dom all_requests_prompts) (simp add: all_requests_def)
next
  case (write_fails v1 v2 v3 v4 v5 c n fs)
  from write_fails(5) show ?thesis
    by (simp add: all_outputs_dom all_requests_prompts) (simp add: all_requests_def)
next
  case (completed t1 t2 t3 t4 t5 c)
  from completed(4) show ?thesis
    by (simp add: all_outputs_dom all_requests_prompts) (simp add: all_requests_def)
qed

theorem five_phases_in_order_witness:
  "validate_setup (Config stub_world) \<and>
   answered stub_world 0 (calls (snd (main stub_world)) ! 0) \<and>
   answered stub_world 1 (calls (snd (main stub_world)) ! 1) \<and>
   answered stub_world 2 (calls (snd (main stub_world)) ! 2) \<and>
   answered stub_world 3 (calls (snd (main stub_world)) ! 3) \<and>
   answered stub_world 4 (calls (snd (main stub_world)) ! 4) \<and>
   map (\<lambda>req. content (req_messages req ! 0)) (calls (snd (main stub_world))) = system_prompts \<and>
   length (calls (snd (main stub_world))) = 5 \<and>
   dom (outputs (snd (main stub_world))) =
     {''research'', ''analysis'', ''blueprint'', ''launch'', ''review''} \<and>
   card (dom (outputs (snd (main stub_world)))) = 5"
proof -
  have a: "\<forall>i < length (calls (snd (main stub_world))).
      answered stub_world i (calls (snd (main stub_world)) ! i)"
    by (simp add: answered_def stub_world_def)
  show ?thesis
    using stub_valid five_phases_in_order [OF stub_valid a]
    by (simp add: answered_def stub_world_def)
qed

section \<open>A failed call\<close>

lemma third_call_fails_main:
  "\<exists>c. main third_call_fails_world =
     (0, final third_call_fails_world c
           [research_request third_call_fails_world,
            analysis_request third_call_fails_world (Str ''R''),
            blueprint_request third_call_fails_world (Str ''A'')]
           [''research'' \<mapsto> Str ''R'', ''analysis'' \<mapsto> Str ''A''] 1 Map.empty)"
proof -
  have v: "validate_setup (Config third_call_fails_world)"
    by (simp add: third_call_fails_world_def stub_world_def sample_config_def)
  have a: "answer third_call_fails_world 0 (research_request third_call_fails_world) = Inr (Str ''R'')"
    "answer third_call_fails_world 1 (analysis_request third_call_fails_world (Str ''R'')) =
       Inr (Str ''A'')"
    "answer third_call_fails_world 2 (blueprint_request third_call_fails_world (Str ''A'')) =
       Inl (APIError ''Rate limit reached'')"
    by (simp_all add: answer_def third_call_fails_world_def stub_world_def stub_reply_def)
  from try_body_fail3 [OF v a] obtain c where
    tb: "try_body third_call_fails_world initial_state =
     (Inl (APIError ''Rate limit reached''),
      final third_call_fails_world c
        [research_request third_call_fails_world,
         analysis_request third_call_fails_world (Str ''R''),
         blueprint_request third_call_fails_world (Str ''A'')]
        [''research'' \<mapsto> Str ''R'', ''analysis'' \<mapsto> Str ''A''] 1 Map.empty)" ..
  from main_handled [OF tb] show ?thesis by simp
qed

text \<open>
  C3. With a valid configuration, if the completion service raises at the call with index
  \<open>i\<close> of the run, then no file is written, this call is the last one made (no later phase
  executes), the output mapping holds the outputs of the \<open>i\<close> earlier phases only, and the
  \<^verbatim>\<open>try\<close> block does not complete: the summary, which writes the file, is never reached.
\<close>

theorem failed_call_stops_the_run:
  assumes "validate_setup (Config w)"
    and "i < length (calls (snd (main w)))"
    and "remote w i (calls (snd (main w)) ! i) = Inl m"
  shows "files (snd (main w)) = Map.empty \<and>
         length (calls (snd (main w))) = Suc i \<and>
         dom (outputs (snd (main w))) = set (take i phase_names) \<and>
         \<not> succeeded w"
  using assms(1)
proof (cases rule: main_cases)
  case (research_fails e c)
  with assms(2,3) show ?thesis
    by (auto simp add: succeeded_def phase_names_def)
next
  case (analysis_fails v1 e c)
  with assms(2,3) answer_Inr_D [OF analysis_fails(1), of m] show ?thesis
    by (auto simp add: succeeded_def phase_names_def less_Suc_eq)
next
  case (blueprint_fails v1 v2 e c)
  with assms(2,3) answer_Inr_D [OF blueprint_fails(1), of m]
    answer_Inr_D [OF blueprint_fails(2), of m] show ?thesis
    by (auto simp add: succeeded_def phase_names_def less_Suc_eq)
next
  case (launch_fails v1 v2 v3 e c)
  with assms(2,3) answer_Inr_D [OF launch_fails(1), of m]
    answer_Inr_D [OF launch_fails(2), of m] answer_Inr_D [OF launch_fails(3), of m] show ?thesis
    by (auto simp add: succeeded_def phase_names_def less_Suc_eq eval_nat_numeral)
next
  case (review_fails v1 v2 v3 v4 e c)
  with assms(2,3) answer_Inr_D [OF review_fails(1), of m]
    answer_Inr_D [OF review_fails(2), of m] answer_Inr_D [OF review_fails(3), of m]
    answer_Inr_D [OF review_fails(4), of m] show ?thesis
    by (auto simp add: succeeded_def phase_names_def less_Suc_eq eval_nat_numeral)
next
  case (open_fails v1 v2 v3 v4 v5 m' c)
  with assms(2,3) five_answers_D [OF open_fails(1), of i m] show ?thesis
    by (simp add: all_requests_def)
next
  case (write_fails v1 v2 v3 v4 v5 c n fs)
  with assms(2,3) five_answers_D [OF write_fails(1), of i m] show ?thesis
    by (simp add: all_requests_def)
next
  case (completed t1 t2 t3 t4 t5 c)
  with assms(2,3) five_answers_D [OF completed(1), of i m] show ?thesis
    by (simp add: all_requests_def)
qed

theorem failed_call_stops_the_run_witness:
  "validate_setup (Config third_call_fails_world) \<and>
   2 < length (calls (snd (main third_call_fails_world))) \<and>
   remote third_call_fails_world 2 (calls (snd (main third_call_fails_world)) ! 2) =
     Inl ''Rate limit reached'' \<and>
   files (snd (main third_call_fails_world)) = Map.empty \<and>
   length (calls (snd (main third_call_fails_world))) = 3 \<and>
   dom (outputs (snd (main third_call_fails_world))) = {''research'', ''analysis''} \<and>
   \<not> succeeded third_call_fails_world"
proof -
  have v: "validate_setup (Config third_call_fails_world)"
    by (simp add: third_call_fails_world_def stub_world_def sample_config_def)
  from third_call_fails_main obtain c where
    m: "main third_call_fails_world =
     (0, final third_call_fails_world c
           [research_request third_call_fails_world,
            analysis_request third_call_fails_world (Str ''R''),
            blueprint_request third_call_fails_world (Str ''A'')]
           [''research'' \<mapsto> Str ''R'', ''analysis'' \<mapsto> Str ''A''] 1 Map.empty)" ..
  have l: "2 < length (calls (snd (main third_call_fails_world)))"
    by (simp add: m)
  have r: "remote third_call_fails_world 2 (calls (snd (main third_call_fails_world)) ! 2) =
     Inl ''Rate limit reached''"
    by (simp add: third_call_fails_world_def)
  have t: "set (take 2 phase_names) = {''research'', ''analysis''}"
    by (auto simp add: phase_names_def)
  show ?thesis
    using v l r failed_call_stops_the_run [OF v l r] by (simp add: t)
qed

section \<open>Frame of the output mapping\<close>

lemma ask_writes:
  "(\<forall>k. k \<noteq> key \<longrightarrow> outputs (snd (ask w req key label s)) k = outputs s k) \<and>
   (fst (ask w req key label s) = Inr () \<longrightarrow> key \<in> dom (outputs (snd (ask w req key label s)))) \<and>
   (fst (ask w req key label s) \<noteq> Inr () \<longrightarrow> outputs (snd (ask w req key label s)) = outputs s)"
  by (simp add: ask_def split: sum.splits)

lemma phases_write_only:
  "writes_only ''research'' (phase_research w)"
  "writes_only ''analysis'' (phase_analysis w)"
  "writes_only ''blueprint'' (phase_blueprint w)"
  "writes_only ''launch'' (phase_launch w)"
  "writes_only ''review'' (phase_review w)"
proof -
  note a = ask_writes [where s = "s\<lparr>console := c\<rparr>" for s c, simplified]
  show "writes_only ''research'' (phase_research w)"
    unfolding writes_only_def phase_research_eq using a by simp
  show "writes_only ''analysis'' (phase_analysis w)"
    unfolding writes_only_def phase_analysis_eq using a by (simp add: Let_def split: option.splits)
  show "writes_only ''blueprint'' (phase_blueprint w)"
    unfolding writes_only_def phase_blueprint_eq using a by (simp add: Let_def split: option.splits)
  show "writes_only ''launch'' (phase_launch w)"
    unfolding writes_only_def phase_launch_eq using a by (simp add: Let_def split: option.splits)
  show "writes_only ''review'' (phase_review w)"
    unfolding writes_only_def phase_review_eq using a by (simp add: Let_def split: option.splits)
qed

lemma writes_only_touches: "writes_only key p \<Longrightarrow> touches {key} p"
proof -
  assume w: "writes_only key p"
  have "dom (outputs (snd (p s))) \<subseteq> dom (outputs s) \<union> {key}" for s
  proof
    fix k assume k: "k \<in> dom (outputs (snd (p s)))"
    show "k \<in> dom (outputs s) \<union> {key}"
    proof (cases "k = key")
      case True
      then show ?thesis by simp
    next
      case False
      with w have "outputs (snd (p s)) k = outputs s k"
        unfolding writes_only_def by blast
      with k show ?thesis by (simp add: dom_def)
    qed
  qed
  then show ?thesis unfolding touches_def by blast
qed

lemma stub_research:
  "phase_research stub_world (final stub_world c [] Map.empty n Map.empty) =
     (Inr (), final stub_world
        (c @ banner ''PHASE 1: MARKET RESEARCH'' ''[ResearchAgent is analyzing the market...]'' @
           [Print ''\<newline>[ResearchAgent Output]'', Print ''R''])
        [research_request stub_world] [''research'' \<mapsto> Str ''R''] n Map.empty)"
proof -
  have "answer stub_world 0 (research_request stub_world) = Inr (Str ''R'')"
    by (simp add: answer_def stub_world_def stub_reply_def)
  then show ?thesis
    by (simp add: phase_research_final ask_final)
qed

section \<open>Exit behaviour\<close>

lemma try_body_unconfigured:
  "\<not> validate_setup (Config w) \<Longrightarrow>
   try_body w initial_state =
     (Inl (SystemExit 1),
      initial_state\<lparr>console := [Print ''ERROR: Configuration validation failed!'']\<rparr>)"
  by (simp add: try_body_def init_def exec initial_state_def)

lemma offline_main:
  "\<exists>c. try_body offline_world initial_state =
          (Inl (APIError ''Connection error.''),
           final offline_world c [research_request offline_world] Map.empty 1 Map.empty) \<and>
        main offline_world =
          (0, final offline_world (c @ handler_console (APIError ''Connection error.''))
                [research_request offline_world] Map.empty 1 Map.empty)"
proof -
  have v: "validate_setup (Config offline_world)"
    by (simp add: offline_world_def stub_world_def sample_config_def)
  have a: "answer offline_world 0 (research_request offline_world) =
      Inl (APIError ''Connection error.'')"
    by (simp add: answer_def offline_world_def)
  from try_body_fail1 [OF v a] obtain c where
    tb: "try_body offline_world initial_state =
          (Inl (APIError ''Connection error.''),
           final offline_world c [research_request offline_world] Map.empty 1 Map.empty)" ..
  from main_handled [OF tb] tb show ?thesis by simp
qed

lemma handled_failure:
  assumes "validate_setup (Config w)" "\<not> succeeded w"
  shows "\<exists>e c. fst (try_body w initial_state) = Inl e \<and> is_Exception e \<and>
           fst (main w) = 0 \<and> console (snd (main w)) = c @ handler_console e"
  using assms(1)
proof (cases rule: main_cases)
  case (research_fails e c)
  from research_fails(2,3) answer_Inl_Exception [OF research_fails(1)] show ?thesis by simp
next
  case (analysis_fails v1 e c)
  from analysis_fails(3,4) answer_Inl_Exception [OF analysis_fails(2)] show ?thesis by simp
next
  case (blueprint_fails v1 v2 e c)
  from blueprint_fails(4,5) answer_Inl_Exception [OF blueprint_fails(3)] show ?thesis by simp
next
  case (launch_fails v1 v2 v3 e c)
  from launch_fails(5,6) answer_Inl_Exception [OF launch_fails(4)] show ?thesis by simp
next
  case (review_fails v1 v2 v3 v4 e c)
  from review_fails(6,7) answer_Inl_Exception [OF review_fails(5)] show ?thesis by simp
next
  case (open_fails v1 v2 v3 v4 v5 m c)
  from open_fails(3,4) show ?thesis by simp
next
  case (write_fails v1 v2 v3 v4 v5 c n fs)
  from write_fails(4,5) show ?thesis by simp
next
  case (completed t1 t2 t3 t4 t5 c)
  from completed(3) assms(2) show ?thesis by (simp add: succeeded_def)
qed

lemma completed_run:
  assumes "validate_setup (Config w)" "succeeded w"
  shows "fst (main w) = 0 \<and> last (console (snd (main w))) = Print success_text"
  using assms(1)
proof (cases rule: main_cases)
  case (research_fails e c)
  from research_fails(2) assms(2) show ?thesis by (simp add: succeeded_def)
next
  case (analysis_fails v1 e c)
  from analysis_fails(3) assms(2) show ?thesis by (simp add: succeeded_def)
next
  case (blueprint_fails v1 v2 e c)
  from blueprint_fails(4) assms(2) show ?thesis by (simp add: succeeded_def)
next
  case (launch_fails v1 v2 v3 e c)
  from launch_fails(5) assms(2) show ?thesis by (simp add: succeeded_def)
next
  case (review_fails v1 v2 v3 v4 e c)
  from review_fails(6) assms(2) show ?thesis by (simp add: succeeded_def)
next
  case (open_fails v1 v2 v3 v4 v5 m c)
  from open_fails(3) assms(2) show ?thesis by (simp add: succeeded_def)
next
  case (write_fails v1 v2 v3 v4 v5 c n fs)
  from write_fails(4) assms(2) show ?thesis by (simp add: succeeded_def)
next
  case (completed t1 t2 t3 t4 t5 c)
  from completed(4) show ?thesis by simp
qed

text \<open>
  C10. When the configuration check fails, \<^verbatim>\<open>exit(1)\<close> raises \<^verbatim>\<open>SystemExit(1)\<close>, which is
  not an \<^verbatim>\<open>Exception\<close>: the handler does not catch it, the process ends with status 1
  and the console shows the error line only, neither the troubleshooting list nor a
  traceback. With a valid configuration, a failure of the \<^verbatim>\<open>try\<close> block is an
  \<^verbatim>\<open>Exception\<close>, and the console ends with the handler's report of it.
\<close>

theorem config_failure_is_not_handled:
  "(\<not> validate_setup (Config w) \<longrightarrow>
      fst (try_body w initial_state) = Inl (SystemExit 1) \<and>
      \<not> is_Exception (SystemExit 1) \<and>
      fst (main w) = 1 \<and>
      console (snd (main w)) = [Print ''ERROR: Configuration validation failed!''] \<and>
      Print ''\<newline>Troubleshooting:'' \<notin> set (console (snd (main w))) \<and>
      (\<forall>e. Traceback e \<notin> set (console (snd (main w))))) \<and>
   (validate_setup (Config w) \<and> \<not> succeeded w \<longrightarrow>
      (\<exists>e c. fst (try_body w initial_state) = Inl e \<and> is_Exception e \<and>
             console (snd (main w)) = c @ handler_console e))"
proof (cases "validate_setup (Config w)")
  case True
  with handled_failure [of w] show ?thesis by blast
next
  case False
  then show ?thesis
    by (simp add: try_body_unconfigured main_unconfigured)
qed

theorem config_failure_is_not_handled_witness:
  "\<not> validate_setup (Config unconfigured_world) \<and>
   fst (main unconfigured_world) = 1 \<and>
   console (snd (main unconfigured_world)) = [Print ''ERROR: Configuration validation failed!''] \<and>
   validate_setup (Config offline_world) \<and>
   \<not> succeeded offline_world \<and>
   fst (try_body offline_world initial_state) = Inl (APIError ''Connection error.'') \<and>
   is_Exception (APIError ''Connection error.'') \<and>
   last (console (snd (main offline_world))) = Traceback (APIError ''Connection error.'')"
proof -
  have u: "\<not> validate_setup (Config unconfigured_world)"
    by (simp add: unconfigured_world_def stub_world_def sample_config_def)
  have v: "validate_setup (Config offline_world)"
    by (simp add: offline_world_def stub_world_def sample_config_def)
  from offline_main obtain c where
    tb: "try_body offline_world initial_state =
          (Inl (APIError ''Connection error.''),
           final offline_world c [research_request offline_world] Map.empty 1 Map.empty)"
    by blast
  then have n: "\<not> succeeded offline_world" by (simp add: succeeded_def)
  from config_failure_is_not_handled [of offline_world] v n obtain e c' where
    e: "fst (try_body offline_world initial_state) = Inl e"
      "console (snd (main offline_world)) = c' @ handler_console e"
    by blast
  from e(1) tb have "e = APIError ''Connection error.''" by simp
  with e(2) have l: "last (console (snd (main offline_world))) =
      Traceback (APIError ''Connection error.'')"
    by (simp add: handler_console_def)
  from config_failure_is_not_handled [of unconfigured_world] u
  have "fst (main unconfigured_world) = 1"
    "console (snd (main unconfigured_world)) = [Print ''ERROR: Configuration validation failed!'']"
    by blast+
  with u v n tb l show ?thesis by simp
qed

lemma stub_succeeded: "succeeded stub_world"
proof -
  have "open_error stub_world (output_file_name (clock stub_world 1)) = None"
    by (simp add: stub_world_def)
  from try_body_ok [OF stub_valid stub_answers this] show ?thesis
    unfolding succeeded_def by auto
qed

text \<open>
  C6, as the code has it. With a valid configuration, a run whose \<^verbatim>\<open>try\<close> block completes
  ends with the confirmation line and exit status 0. A run whose \<^verbatim>\<open>try\<close> block raises ends
  with the handler's report (the error line with the message, the five-item
  troubleshooting list, the traceback), and then the script simply ends: the exit status
  is 0 as well, since the handler swallows the exception and nothing exits with a failure
  status.
\<close>

theorem exit_status_after_run:
  assumes "validate_setup (Config w)"
  shows "(succeeded w \<longrightarrow>
           fst (main w) = 0 \<and> last (console (snd (main w))) = Print success_text) \<and>
         (\<not> succeeded w \<longrightarrow>
           fst (main w) = 0 \<and>
           (\<exists>e c. fst (try_body w initial_state) = Inl e \<and>
                  console (snd (main w)) = c @ handler_console e))"
  using completed_run [OF assms] handled_failure [OF assms] by blast

theorem exit_status_after_run_witness:
  "validate_setup (Config stub_world) \<and> succeeded stub_world \<and>
   fst (main stub_world) = 0 \<and>
   last (console (snd (main stub_world))) = Print success_text \<and>
   validate_setup (Config offline_world) \<and> \<not> succeeded offline_world \<and>
   fst (main offline_world) = 0"
proof -
  have v: "validate_setup (Config offline_world)"
    by (simp add: offline_world_def stub_world_def sample_config_def)
  from offline_main have n: "\<not> succeeded offline_world"
    by (auto simp add: succeeded_def)
  from exit_status_after_run [OF stub_valid] stub_succeeded
  have "fst (main stub_world) = 0" "last (console (snd (main stub_world))) = Print success_text"
    by blast+
  moreover from exit_status_after_run [OF v] n have "fst (main offline_world) = 0"
    by blast
  ultimately show ?thesis
    using stub_valid stub_succeeded v n by blast
qed

text \<open>
  The claim as the specification states it fails where the completion service is
  unreachable: the first call raises, the handler reports it, and the exit status is 0,
  not a failure status.
\<close>

theorem failure_exit_status_counterexample:
  "\<not> succeeded offline_world \<and>
   last (console (snd (main offline_world))) = Traceback (APIError ''Connection error.'') \<and>
   fst (main offline_world) = 0"
proof -
  from offline_main obtain c where
    "try_body offline_world initial_state =
       (Inl (APIError ''Connection error.''),
        final offline_world c [research_request offline_world] Map.empty 1 Map.empty)"
    "main offline_world =
       (0, final offline_world (c @ handler_console (APIError ''Connection error.''))
             [research_request offline_world] Map.empty 1 Map.empty)"
    by blast
  then show ?thesis
    by (simp add: succeeded_def handler_console_def)
qed

section \<open>The output file\<close>
















section \<open>What a phase writes\<close>

lemma answer_Inr_remote:
  "answer w n q = Inr v \<Longrightarrow> \<exists>r cs. remote w n q = Inr r \<and> choices r = v # cs"
  by (auto simp add: answer_def split: sum.splits list.splits)

lemma try_body_phases:
  assumes "validate_setup (Config w)"
  shows "try_body w initial_state =
     nxt (phase_research w) (nxt (phase_analysis w) (nxt (phase_blueprint w)
       (nxt (phase_launch w) (nxt (phase_review w)
         (nxt (print_summary w) (print success_text))))))
       (final w (init_console w @ heading_console w 0) [] Map.empty 1 Map.empty)"
proof -
  have "try_body w =
     nxt (init w) (nxt (run_heading w)
       (nxt (phase_research w) (nxt (phase_analysis w) (nxt (phase_blueprint w)
         (nxt (phase_launch w) (nxt (phase_review w)
           (nxt (print_summary w) (print success_text))))))))"
    by (simp only: try_body_def run_def run_heading_def success_text_def nxt_def bnd_assoc)
  then have "try_body w initial_state =
     nxt (run_heading w)
       (nxt (phase_research w) (nxt (phase_analysis w) (nxt (phase_blueprint w)
         (nxt (phase_launch w) (nxt (phase_review w)
           (nxt (print_summary w) (print success_text)))))))
       (final w (init_console w) [] Map.empty 0 Map.empty)"
    by (simp add: nxt_apply [of "init w"] init_ok [OF assms])
  then show ?thesis
    by (simp add: nxt_apply [of "run_heading w"] run_heading_final)
qed

lemma stored_is_reply:
  "\<forall>i < length phase_names. \<forall>v.
      outputs (snd (main w)) (phase_names ! i) = Some v \<longrightarrow>
      i < length (calls (snd (main w))) \<and>
      (\<exists>r cs. remote w i (calls (snd (main w)) ! i) = Inr r \<and> choices r = v # cs)"
proof (cases "validate_setup (Config w)")
  case False
  then show ?thesis by (simp add: main_unconfigured initial_state_def)
next
  case True
  note s = phase_names_def All_less_Suc eval_nat_numeral all_outputs_def all_requests_def
  from True show ?thesis
  proof (cases rule: main_cases)
    case (research_fails e c)
    from research_fails(3) show ?thesis by (simp add: s)
  next
    case (analysis_fails v1 e c)
    from analysis_fails(4) answer_Inr_remote [OF analysis_fails(1)] show ?thesis
      by (simp add: s)
  next
    case (blueprint_fails v1 v2 e c)
    from blueprint_fails(5) answer_Inr_remote [OF blueprint_fails(1)]
      answer_Inr_remote [OF blueprint_fails(2)] show ?thesis
      by (simp add: s)
  next
    case (launch_fails v1 v2 v3 e c)
    from launch_fails(6) answer_Inr_remote [OF launch_fails(1)]
      answer_Inr_remote [OF launch_fails(2)] answer_Inr_remote [OF launch_fails(3)]
    show ?thesis
      by (simp add: s)
  next
    case (review_fails v1 v2 v3 v4 e c)
    from review_fails(7) answer_Inr_remote [OF review_fails(1)]
      answer_Inr_remote [OF review_fails(2)] answer_Inr_remote [OF review_fails(3)]
      answer_Inr_remote [OF review_fails(4)]
    show ?thesis
      by (simp add: s)
  next
    case (open_fails v1 v2 v3 v4 v5 m c)
    from open_fails(1) have a: "answer w 0 (research_request w) = Inr v1"
      "answer w 1 (analysis_request w v1) = Inr v2"
      "answer w 2 (blueprint_request w v2) = Inr v3"
      "answer w 3 (launch_request w v3) = Inr v4"
      "answer w 4 (review_request w v3 v4) = Inr v5"
      by (simp_all add: five_answers_def)
    from open_fails(4) a [THEN answer_Inr_remote] show ?thesis
      by (simp add: s)
  next
    case (write_fails v1 v2 v3 v4 v5 c n fs)
    from write_fails(1) have a: "answer w 0 (research_request w) = Inr v1"
      "answer w 1 (analysis_request w v1) = Inr v2"
      "answer w 2 (blueprint_request w v2) = Inr v3"
      "answer w 3 (launch_request w v3) = Inr v4"
      "answer w 4 (review_request w v3 v4) = Inr v5"
      by (simp_all add: five_answers_def)
    from write_fails(5) a [THEN answer_Inr_remote] show ?thesis
      by (simp add: s)
  next
    case (completed t1 t2 t3 t4 t5 c)
    from completed(1) have a: "answer w 0 (research_request w) = Inr (Str t1)"
      "answer w 1 (analysis_request w (Str t1)) = Inr (Str t2)"
      "answer w 2 (blueprint_request w (Str t2)) = Inr (Str t3)"
      "answer w 3 (launch_request w (Str t3)) = Inr (Str t4)"
      "answer w 4 (review_request w (Str t3) (Str t4)) = Inr (Str t5)"
      by (simp_all add: five_answers_def)
    from completed(4) a [THEN answer_Inr_remote] show ?thesis
      by (simp add: s)
  qed
qed

lemma phase_results:
  "(fst (phase_research w s), outputs (snd (phase_research w s))) =
     (case answer w (length (calls s))
             (chat_request (Config w) (model s) research_system_prompt research_user_message) of
        Inl e \<Rightarrow> (Inl e, outputs s)
      | Inr v \<Rightarrow> (Inr (), (outputs s)(''research'' \<mapsto> v)))"
  "(fst (phase_analysis w s), outputs (snd (phase_analysis w s))) =
     (case outputs s ''research'' of
        None \<Rightarrow> (Inl (KeyError ''research''), outputs s)
      | Some research \<Rightarrow>
          (case answer w (length (calls s))
                  (chat_request (Config w) (model s) analysis_system_prompt
                     (analysis_user_message research)) of
             Inl e \<Rightarrow> (Inl e, outputs s)
           | Inr v \<Rightarrow> (Inr (), (outputs s)(''analysis'' \<mapsto> v))))"
  "(fst (phase_blueprint w s), outputs (snd (phase_blueprint w s))) =
     (case outputs s ''analysis'' of
        None \<Rightarrow> (Inl (KeyError ''analysis''), outputs s)
      | Some analysis \<Rightarrow>
          (case answer w (length (calls s))
                  (chat_request (Config w) (model s) blueprint_system_prompt
                     (blueprint_user_message analysis)) of
             Inl e \<Rightarrow> (Inl e, outputs s)
           | Inr v \<Rightarrow> (Inr (), (outputs s)(''blueprint'' \<mapsto> v))))"
  "(fst (phase_launch w s), outputs (snd (phase_launch w s))) =
     (case outputs s ''blueprint'' of
        None \<Rightarrow> (Inl (KeyError ''blueprint''), outputs s)
      | Some blueprint \<Rightarrow>
          (case answer w (length (calls s))
                  (chat_request (Config w) (model s) launch_system_prompt
                     (launch_user_message blueprint)) of
             Inl e \<Rightarrow> (Inl e, outputs s)
           | Inr v \<Rightarrow> (Inr (), (outputs s)(''launch'' \<mapsto> v))))"
  "(fst (phase_review w s), outputs (snd (phase_review w s))) =
     (case outputs s ''blueprint'' of
        None \<Rightarrow> (Inl (KeyError ''blueprint''), outputs s)
      | Some blueprint \<Rightarrow>
          (case outputs s ''launch'' of
             None \<Rightarrow> (Inl (KeyError ''launch''), outputs s)
           | Some launch \<Rightarrow>
               (case answer w (length (calls s))
                       (chat_request (Config w) (model s) review_system_prompt
                          (review_user_message blueprint launch)) of
                  Inl e \<Rightarrow> (Inl e, outputs s)
                | Inr v \<Rightarrow> (Inr (), (outputs s)(''review'' \<mapsto> v)))))"
proof -
  show "(fst (phase_research w s), outputs (snd (phase_research w s))) =
     (case answer w (length (calls s))
             (chat_request (Config w) (model s) research_system_prompt research_user_message) of
        Inl e \<Rightarrow> (Inl e, outputs s)
      | Inr v \<Rightarrow> (Inr (), (outputs s)(''research'' \<mapsto> v)))"
    unfolding phase_research_eq by (simp add: ask_def split: sum.splits)
  show "(fst (phase_analysis w s), outputs (snd (phase_analysis w s))) =
     (case outputs s ''research'' of
        None \<Rightarrow> (Inl (KeyError ''research''), outputs s)
      | Some research \<Rightarrow>
          (case answer w (length (calls s))
                  (chat_request (Config w) (model s) analysis_system_prompt
                     (analysis_user_message research)) of
             Inl e \<Rightarrow> (Inl e, outputs s)
           | Inr v \<Rightarrow> (Inr (), (outputs s)(''analysis'' \<mapsto> v))))"
    unfolding phase_analysis_eq by (simp add: Let_def ask_def split: option.splits sum.splits)
  show "(fst (phase_blueprint w s), outputs (snd (phase_blueprint w s))) =
     (case outputs s ''analysis'' of
        None \<Rightarrow> (Inl (KeyError ''analysis''), outputs s)
      | Some analysis \<Rightarrow>
          (case answer w (length (calls s))
                  (chat_request (Config w) (model s) blueprint_system_prompt
                     (blueprint_user_message analysis)) of
             Inl e \<Rightarrow> (Inl e, outputs s)
           | Inr v \<Rightarrow> (Inr (), (outputs s)(''blueprint'' \<mapsto> v))))"
    unfolding phase_blueprint_eq by (simp add: Let_def ask_def split: option.splits sum.splits)
  show "(fst (phase_launch w s), outputs (snd (phase_launch w s))) =
     (case outputs s ''blueprint'' of
        None \<Rightarrow> (Inl (KeyError ''blueprint''), outputs s)
      | Some blueprint \<Rightarrow>
          (case answer w (length (calls s))
                  (chat_request (Config w) (model s) launch_system_prompt
                     (launch_user_message blueprint)) of
             Inl e \<Rightarrow> (Inl e, outputs s)
           | Inr v \<Rightarrow> (Inr (), (outputs s)(''launch'' \<mapsto> v))))"
    unfolding phase_launch_eq by (simp add: Let_def ask_def split: option.splits sum.splits)
  show "(fst (phase_review w s), outputs (snd (phase_review w s))) =
     (case outputs s ''blueprint'' of
        None \<Rightarrow> (Inl (KeyError ''blueprint''), outputs s)
      | Some blueprint \<Rightarrow>
          (case outputs s ''launch'' of
             None \<Rightarrow> (Inl (KeyError ''launch''), outputs s)
           | Some launch \<Rightarrow>
               (case answer w (length (calls s))
                       (chat_request (Config w) (model s) review_system_prompt
                          (review_user_message blueprint launch)) of
                  Inl e \<Rightarrow> (Inl e, outputs s)
                | Inr v \<Rightarrow> (Inr (), (outputs s)(''review'' \<mapsto> v)))))"
    unfolding phase_review_eq by (simp add: Let_def ask_def split: option.splits sum.splits)
qed

lemma phase_domains:
  "dom (outputs (snd (phase_research w s))) \<subseteq> dom (outputs s) \<union> {''research''}"
  "dom (outputs (snd (phase_analysis w s))) \<subseteq> dom (outputs s) \<union> {''analysis''}"
  "dom (outputs (snd (phase_blueprint w s))) \<subseteq> dom (outputs s) \<union> {''blueprint''}"
  "dom (outputs (snd (phase_launch w s))) \<subseteq> dom (outputs s) \<union> {''launch''}"
  "dom (outputs (snd (phase_review w s))) \<subseteq> dom (outputs s) \<union> {''review''}"
  using phases_write_only [of w, THEN writes_only_touches]
  unfolding touches_def by blast+

lemma keys_absent_at_start:
  "\<forall>s0. outputs s0 = Map.empty \<longrightarrow>
      ''research'' \<notin> dom (outputs s0) \<and>
      (\<forall>s1. phase_research w s0 = (Inr (), s1) \<longrightarrow>
         ''analysis'' \<notin> dom (outputs s1) \<and>
         (\<forall>s2. phase_analysis w s1 = (Inr (), s2) \<longrightarrow>
            ''blueprint'' \<notin> dom (outputs s2) \<and>
            (\<forall>s3. phase_blueprint w s2 = (Inr (), s3) \<longrightarrow>
               ''launch'' \<notin> dom (outputs s3) \<and>
               (\<forall>s4. phase_launch w s3 = (Inr (), s4) \<longrightarrow>
                  ''review'' \<notin> dom (outputs s4)))))"
proof (intro allI impI conjI)
  fix s0 :: state assume e: "outputs s0 = Map.empty"
  then show "''research'' \<notin> dom (outputs s0)" by simp
  fix s1 assume 1: "phase_research w s0 = (Inr (), s1)"
  from phase_domains(1) [of w s0] e 1 have d1: "dom (outputs s1) \<subseteq> {''research''}" by simp
  then show "''analysis'' \<notin> dom (outputs s1)" by auto
  fix s2 assume 2: "phase_analysis w s1 = (Inr (), s2)"
  from phase_domains(2) [of w s1] d1 2 have d2: "dom (outputs s2) \<subseteq> {''research'', ''analysis''}"
    by auto
  then show "''blueprint'' \<notin> dom (outputs s2)" by auto
  fix s3 assume 3: "phase_blueprint w s2 = (Inr (), s3)"
  from phase_domains(3) [of w s2] d2 3
  have d3: "dom (outputs s3) \<subseteq> {''research'', ''analysis'', ''blueprint''}"
    by auto
  then show "''launch'' \<notin> dom (outputs s3)" by auto
  fix s4 assume 4: "phase_launch w s3 = (Inr (), s4)"
  from phase_domains(4) [of w s3] d3 4
  have d4: "dom (outputs s4) \<subseteq> {''research'', ''analysis'', ''blueprint'', ''launch''}"
    by auto
  then show "''review'' \<notin> dom (outputs s4)" by auto
qed

text \<open>
  C8. Each phase function leaves the output mapping as it was when it fails, and when it
  succeeds it adds exactly the entry of its own phase name, holding the content of the reply
  to the request it sent; no other entry changes. The \<^verbatim>\<open>try\<close> block of a run with a valid
  configuration is the five phases in order, then the summary, started in a state whose
  mapping is empty; from such a state the entry of each phase is absent when the phase
  starts, so no entry is overwritten. Accordingly every entry of the final mapping of a run
  is the content of the reply to the call of its own phase.
\<close>

theorem outputs_written_once:
  "(fst (phase_research w s), outputs (snd (phase_research w s))) =
     (case answer w (length (calls s))
             (chat_request (Config w) (model s) research_system_prompt research_user_message) of
        Inl e \<Rightarrow> (Inl e, outputs s)
      | Inr v \<Rightarrow> (Inr (), (outputs s)(''research'' \<mapsto> v))) \<and>
   (fst (phase_analysis w s), outputs (snd (phase_analysis w s))) =
     (case outputs s ''research'' of
        None \<Rightarrow> (Inl (KeyError ''research''), outputs s)
      | Some research \<Rightarrow>
          (case answer w (length (calls s))
                  (chat_request (Config w) (model s) analysis_system_prompt
                     (analysis_user_message research)) of
             Inl e \<Rightarrow> (Inl e, outputs s)
           | Inr v \<Rightarrow> (Inr (), (outputs s)(''analysis'' \<mapsto> v)))) \<and>
   (fst (phase_blueprint w s), outputs (snd (phase_blueprint w s))) =
     (case outputs s ''analysis'' of
        None \<Rightarrow> (Inl (KeyError ''analysis''), outputs s)
      | Some analysis \<Rightarrow>
          (case answer w (length (calls s))
                  (chat_request (Config w) (model s) blueprint_system_prompt
                     (blueprint_user_message analysis)) of
             Inl e \<Rightarrow> (Inl e, outputs s)
           | Inr v \<Rightarrow> (Inr (), (outputs s)(''blueprint'' \<mapsto> v)))) \<and>
   (fst (phase_launch w s), outputs (snd (phase_launch w s))) =
     (case outputs s ''blueprint'' of
        None \<Rightarrow> (Inl (KeyError ''blueprint''), outputs s)
      | Some blueprint \<Rightarrow>
          (case answer w (length (calls s))
                  (chat_request (Config w) (model s) launch_system_prompt
                     (launch_user_message blueprint)) of
             Inl e \<Rightarrow> (Inl e, outputs s)
           | Inr v \<Rightarrow> (Inr (), (outputs s)(''launch'' \<mapsto> v)))) \<and>
   (fst (phase_review w s), outputs (snd (phase_review w s))) =
     (case outputs s ''blueprint'' of
        None \<Rightarrow> (Inl (KeyError ''blueprint''), outputs s)
      | Some blueprint \<Rightarrow>
          (case outputs s ''launch'' of
             None \<Rightarrow> (Inl (KeyError ''launch''), outputs s)
           | Some launch \<Rightarrow>
               (case answer w (length (calls s))
                       (chat_request (Config w) (model s) review_system_prompt
                          (review_user_message blueprint launch)) of
                  Inl e \<Rightarrow> (Inl e, outputs s)
                | Inr v \<Rightarrow> (Inr (), (outputs s)(''review'' \<mapsto> v))))) \<and>
   (validate_setup (Config w) \<longrightarrow>
      (\<exists>s0. outputs s0 = Map.empty \<and>
            try_body w initial_state =
              nxt (phase_research w) (nxt (phase_analysis w) (nxt (phase_blueprint w)
                (nxt (phase_launch w) (nxt (phase_review w)
                  (nxt (print_summary w) (print success_text)))))) s0)) \<and>
   (\<forall>s0. outputs s0 = Map.empty \<longrightarrow>
      ''research'' \<notin> dom (outputs s0) \<and>
      (\<forall>s1. phase_research w s0 = (Inr (), s1) \<longrightarrow>
         ''analysis'' \<notin> dom (outputs s1) \<and>
         (\<forall>s2. phase_analysis w s1 = (Inr (), s2) \<longrightarrow>
            ''blueprint'' \<notin> dom (outputs s2) \<and>
            (\<forall>s3. phase_blueprint w s2 = (Inr (), s3) \<longrightarrow>
               ''launch'' \<notin> dom (outputs s3) \<and>
               (\<forall>s4. phase_launch w s3 = (Inr (), s4) \<longrightarrow>
                  ''review'' \<notin> dom (outputs s4)))))) \<and>
   (\<forall>i < length phase_names. \<forall>v.
      outputs (snd (main w)) (phase_names ! i) = Some v \<longrightarrow>
      i < length (calls (snd (main w))) \<and>
      (\<exists>r cs. remote w i (calls (snd (main w)) ! i) = Inr r \<and> choices r = v # cs))"
proof -
  have run: "validate_setup (Config w) \<longrightarrow>
      (\<exists>s0. outputs s0 = Map.empty \<and>
            try_body w initial_state =
              nxt (phase_research w) (nxt (phase_analysis w) (nxt (phase_blueprint w)
                (nxt (phase_launch w) (nxt (phase_review w)
                  (nxt (print_summary w) (print success_text)))))) s0)"
  proof
    assume v: "validate_setup (Config w)"
    let ?s = "final w (init_console w @ heading_console w 0) [] Map.empty 1 Map.empty"
    have "outputs ?s = Map.empty" by simp
    with try_body_phases [OF v] show "\<exists>s0. outputs s0 = Map.empty \<and>
            try_body w initial_state =
              nxt (phase_research w) (nxt (phase_analysis w) (nxt (phase_blueprint w)
                (nxt (phase_launch w) (nxt (phase_review w)
                  (nxt (print_summary w) (print success_text)))))) s0"
      by blast
  qed
  from phase_results [of w s] run keys_absent_at_start [of w] stored_is_reply [of w]
  show ?thesis by (intro conjI)
qed

theorem outputs_written_once_witness:
  "outputs (final stub_world [] [research_request stub_world] [''research'' \<mapsto> Str ''R''] 1
      Map.empty) ''research'' = Some (Str ''R'') \<and>
   fst (phase_analysis stub_world
      (final stub_world [] [research_request stub_world] [''research'' \<mapsto> Str ''R''] 1
         Map.empty)) = Inr () \<and>
   outputs (snd (phase_analysis stub_world
      (final stub_world [] [research_request stub_world] [''research'' \<mapsto> Str ''R''] 1
         Map.empty))) = [''research'' \<mapsto> Str ''R'', ''analysis'' \<mapsto> Str ''A''] \<and>
   validate_setup (Config stub_world) \<and>
   (\<exists>s0. outputs s0 = Map.empty \<and>
      try_body stub_world initial_state =
        nxt (phase_research stub_world) (nxt (phase_analysis stub_world)
          (nxt (phase_blueprint stub_world) (nxt (phase_launch stub_world)
            (nxt (phase_review stub_world)
              (nxt (print_summary stub_world) (print success_text)))))) s0) \<and>
   outputs (final stub_world [] [] Map.empty 1 Map.empty) = Map.empty \<and>
   fst (phase_research stub_world (final stub_world [] [] Map.empty 1 Map.empty)) = Inr () \<and>
   ''analysis'' \<notin> dom (outputs (snd (phase_research stub_world
      (final stub_world [] [] Map.empty 1 Map.empty)))) \<and>
   1 < length phase_names \<and>
   outputs (snd (main stub_world)) (phase_names ! 1) = Some (Str ''A'') \<and>
   1 < length (calls (snd (main stub_world))) \<and>
   remote stub_world 1 (calls (snd (main stub_world)) ! 1) = Inr \<lparr>choices = [Str ''A'']\<rparr>"
proof -
  let ?s1 = "final stub_world [] [research_request stub_world] [''research'' \<mapsto> Str ''R''] 1
      Map.empty"
  let ?s0 = "final stub_world [] [] Map.empty 1 Map.empty"
  note th = outputs_written_once [of stub_world ?s1]
  have a: "\<And>q. answer stub_world (Suc 0) q = Inr (Str ''A'')"
    by (simp add: answer_def stub_world_def stub_reply_def)
  from th have "(fst (phase_analysis stub_world ?s1), outputs (snd (phase_analysis stub_world ?s1))) =
     (case outputs ?s1 ''research'' of
        None \<Rightarrow> (Inl (KeyError ''research''), outputs ?s1)
      | Some research \<Rightarrow>
          (case answer stub_world (length (calls ?s1))
                  (chat_request (Config stub_world) (model ?s1) analysis_system_prompt
                     (analysis_user_message research)) of
             Inl e \<Rightarrow> (Inl e, outputs ?s1)
           | Inr v \<Rightarrow> (Inr (), (outputs ?s1)(''analysis'' \<mapsto> v))))"
    by blast
  then have 1: "fst (phase_analysis stub_world ?s1) = Inr ()"
    "outputs (snd (phase_analysis stub_world ?s1)) =
       [''research'' \<mapsto> Str ''R'', ''analysis'' \<mapsto> Str ''A'']"
    by (simp_all add: a)
  from th stub_valid have 2: "\<exists>s0. outputs s0 = Map.empty \<and>
      try_body stub_world initial_state =
        nxt (phase_research stub_world) (nxt (phase_analysis stub_world)
          (nxt (phase_blueprint stub_world) (nxt (phase_launch stub_world)
            (nxt (phase_review stub_world)
              (nxt (print_summary stub_world) (print success_text)))))) s0"
    by blast
  have r: "phase_research stub_world ?s0 =
     (Inr (), snd (phase_research stub_world ?s0))"
    by (simp add: stub_research)
  have e: "outputs ?s0 = Map.empty" by simp
  from th e r have 3: "''analysis'' \<notin> dom (outputs (snd (phase_research stub_world ?s0)))"
    by blast
  from stub_main obtain c where
    m: "main stub_world =
     (0, final stub_world c
           (all_requests stub_world (Str ''R'') (Str ''A'') (Str ''B'') (Str ''L''))
           (all_outputs (Str ''R'') (Str ''A'') (Str ''B'') (Str ''L'') (Str ''V'')) 4
           [output_file_name sample_time \<mapsto>
              results_text (strftime_iso sample_time) ''gpt-4o-mini''
                ''R'' ''A'' ''B'' ''L'' ''V''])" ..
  have 4: "1 < length phase_names"
    "outputs (snd (main stub_world)) (phase_names ! 1) = Some (Str ''A'')"
    by (simp_all add: m phase_names_def all_outputs_def)
  from th 4 have 5: "1 < length (calls (snd (main stub_world)))"
    by blast
  have 6: "remote stub_world 1 (calls (snd (main stub_world)) ! 1) = Inr \<lparr>choices = [Str ''A'']\<rparr>"
    by (simp add: stub_world_def stub_reply_def)
  have 7: "fst (phase_research stub_world ?s0) = Inr ()"
    by (simp add: stub_research)
  from 1 2 3 4 5 6 7 stub_valid show ?thesis by simp
qed

end
